theory Spec2Isabelle
  imports Complex_Main
begin

section \<open>Values that cross the agent boundary\<close>

text \<open>
  The TypeScript interfaces of \<^verbatim>\<open>src/app/page.tsx\<close> (\<^verbatim>\<open>NewsResponse\<close>,
  \<^verbatim>\<open>PersonalityResponse\<close>, \<^verbatim>\<open>DraftResponse\<close>) are erased at run time: what
  \<^verbatim>\<open>callAgent\<close> returns is whatever \<^verbatim>\<open>response.json()\<close> produced, and the
  handlers test it with \<^verbatim>\<open>typeof\<close>, property reads and \<^verbatim>\<open>slice\<close>. The model
  therefore works on JavaScript values as they are at run time. Numbers are
  never computed with by the handlers, only carried; they are modelled as reals.
\<close>

datatype jsval =
    JUndefined
  | JNull
  | JBool bool
  | JNum real
  | JStr string
  | JArr "jsval list"
  | JObj "(string \<times> jsval) list"

text \<open>
  What a \<^verbatim>\<open>throw\<close> carries. The first three are instances of \<^verbatim>\<open>Error\<close> and
  carry their message; \<open>NonError\<close> stands for any thrown value for which
  \<^verbatim>\<open>err instanceof Error\<close> is false.
\<close>

datatype thrown =
    Error string
  | TypeError string
  | SyntaxError string
  | NonError

type_synonym 'a result = "thrown + 'a"

text \<open>\<^verbatim>\<open>err instanceof Error ? err.message : fallback\<close>\<close>

fun err_message :: "thrown \<Rightarrow> string \<Rightarrow> string" where
  "err_message (Error m) fallback = m"
| "err_message (TypeError m) fallback = m"
| "err_message (SyntaxError m) fallback = m"
| "err_message NonError fallback = fallback"

text \<open>The operand test of \<^verbatim>\<open>!x\<close>: the falsy values among those modelled.\<close>

fun falsy :: "jsval \<Rightarrow> bool" where
  "falsy JUndefined = True"
| "falsy JNull = True"
| "falsy (JBool b) = (\<not> b)"
| "falsy (JNum x) = (x = 0)"
| "falsy (JStr s) = (s = [])"
| "falsy (JArr xs) = False"
| "falsy (JObj kvs) = False"

text \<open>
  A property read \<^verbatim>\<open>x.k\<close>, for the keys the handlers read (\<^verbatim>\<open>success\<close>,
  \<^verbatim>\<open>response\<close>, \<^verbatim>\<open>news_summary\<close>, \<^verbatim>\<open>personality_profile\<close>), none of which a
  built-in prototype defines: reading from \<^verbatim>\<open>undefined\<close> or \<^verbatim>\<open>null\<close> throws a
  TypeError, an object gives the stored value or \<^verbatim>\<open>undefined\<close>, every other
  value gives \<^verbatim>\<open>undefined\<close>.
\<close>

fun get_prop :: "jsval \<Rightarrow> string \<Rightarrow> jsval result" where
  "get_prop JUndefined k = Inl (TypeError ''Cannot read properties of undefined'')"
| "get_prop JNull k = Inl (TypeError ''Cannot read properties of null'')"
| "get_prop (JObj kvs) k = Inr (case map_of kvs k of None \<Rightarrow> JUndefined | Some v \<Rightarrow> v)"
| "get_prop v k = Inr JUndefined"

text \<open>
  \<^verbatim>\<open>x.slice(0, 3)\<close>: arrays and strings have the method; on \<^verbatim>\<open>undefined\<close> and
  \<^verbatim>\<open>null\<close> the property read throws, and on every other value the property is
  not a function.
\<close>

fun slice_0_3 :: "jsval \<Rightarrow> jsval result" where
  "slice_0_3 (JArr xs) = Inr (JArr (take 3 xs))"
| "slice_0_3 (JStr s) = Inr (JStr (take 3 s))"
| "slice_0_3 JUndefined = Inl (TypeError ''Cannot read properties of undefined'')"
| "slice_0_3 JNull = Inl (TypeError ''Cannot read properties of null'')"
| "slice_0_3 v = Inl (TypeError ''slice is not a function'')"

text \<open>
  \<^verbatim>\<open>JSON.parse\<close> and \<^verbatim>\<open>JSON.stringify\<close> belong to the platform, not to the
  repository: they are parameters of the model. \<open>JSON_parse s\<close> is the parsed
  value or the SyntaxError thrown; \<open>JSON_stringify v\<close> is the text of a defined
  value. \<^verbatim>\<open>JSON.stringify(undefined)\<close> is \<^verbatim>\<open>undefined\<close>, which a template
  literal prints as the word \<^verbatim>\<open>undefined\<close>.
\<close>

type_synonym json_parse = "string \<Rightarrow> jsval result"
type_synonym json_stringify = "jsval \<Rightarrow> string"

definition interpolate_json :: "json_stringify \<Rightarrow> jsval \<Rightarrow> string" where
  "interpolate_json JSON_stringify v =
     (if v = JUndefined then ''undefined'' else JSON_stringify v)"

section \<open>Workflow state\<close>

record WorkflowResult =
  news :: jsval
  personality :: jsval
  draft :: jsval
  loading :: bool
  error :: "string option"

text \<open>The argument of \<^verbatim>\<open>useState\<close>.\<close>

definition initial_result :: WorkflowResult where
  "initial_result =
     \<lparr>news = JNull, personality = JNull, draft = JNull, loading = False, error = None\<rparr>"

section \<open>The agent boundary\<close>

record request =
  agent_id :: string
  message :: string

text \<open>
  The remote side: given the requests already made and the request being made,
  \<^verbatim>\<open>fetch\<close> followed by \<^verbatim>\<open>response.json()\<close> either throws or yields the body
  as a value.
\<close>

type_synonym remote = "request list \<Rightarrow> request \<Rightarrow> jsval result"

text \<open>
  A computation that may throw and that records the requests it makes.
\<close>

type_synonym 'a io = "request list \<Rightarrow> 'a result \<times> request list"

definition bind_io :: "'a io \<Rightarrow> ('a \<Rightarrow> 'b io) \<Rightarrow> 'b io" where
  "bind_io m f = (\<lambda>reqs. case m reqs of
       (Inl e, reqs') \<Rightarrow> (Inl e, reqs')
     | (Inr a, reqs') \<Rightarrow> f a reqs')"

definition pure_io :: "'a result \<Rightarrow> 'a io" where
  "pure_io r = (\<lambda>reqs. (r, reqs))"

definition AGENT_IDS_news :: string where
  "AGENT_IDS_news = ''690443fbe26dd0e0368525c4''"

definition AGENT_IDS_personality :: string where
  "AGENT_IDS_personality = ''6904440fe26dd0e0368525c5''"

definition AGENT_IDS_draft :: string where
  "AGENT_IDS_draft = ''6904441bcb70cd01d307c50e''"

definition callAgent :: "remote \<Rightarrow> string \<Rightarrow> string \<Rightarrow> jsval io" where
  "callAgent net agentId msg = (\<lambda>reqs.
     let req = \<lparr>agent_id = agentId, message = msg\<rparr>;
         reqs' = reqs @ [req]
     in case net reqs req of
          Inl e \<Rightarrow> (Inl e, reqs')
        | Inr data \<Rightarrow>
            (case get_prop data ''success'' of
               Inl e \<Rightarrow> (Inl e, reqs')
             | Inr ok \<Rightarrow>
                 if falsy ok then (Inl (Error ''Agent call failed''), reqs')
                 else (get_prop data ''response'', reqs')))"

text \<open>\<^verbatim>\<open>typeof x === 'string'\<close>\<close>

fun typeof_string :: "jsval \<Rightarrow> bool" where
  "typeof_string (JStr s) = True"
| "typeof_string v = False"

text \<open>\<^verbatim>\<open>typeof x === 'string' ? JSON.parse(x) : x\<close>, as written after each call.\<close>

definition decode_payload :: "json_parse \<Rightarrow> jsval \<Rightarrow> jsval result" where
  "decode_payload JSON_parse x = (case x of JStr s \<Rightarrow> JSON_parse s | _ \<Rightarrow> Inr x)"

section \<open>Instructions\<close>

definition news_instruction :: string where
  "news_instruction = ''Search for the latest AI and Lyzr news articles. Focus on recent developments, breakthroughs, and industry updates. Return structured JSON with headlines, sources, dates, summaries, key takeaways, URLs, and relevance scores.''"

definition personality_instruction :: string where
  "personality_instruction = ''Analyze the tone, style, and communication patterns for a Discord community manager sharing tech news. Create a comprehensive personality profile including formality, vocabulary, emoji usage, humor style, engagement approach, key phrases, and topic angles. Return structured JSON format.''"

definition draft_instruction :: "string \<Rightarrow> string \<Rightarrow> string" where
  "draft_instruction personalityContext newsContext =
     ''Using this personality profile: '' @ personalityContext @ [CHR 0x0A, CHR 0x0A] @
     ''And these news items: '' @ newsContext @ [CHR 0x0A, CHR 0x0A] @
     ''Generate an engaging Discord message that incorporates 2-3 news items. Match the personality profile exactly. Include appropriate markdown formatting and structure the message for maximum engagement in a Discord channel. Return JSON with the draft message and detailed metadata.''"

definition regenerate_instruction :: "string \<Rightarrow> string \<Rightarrow> string" where
  "regenerate_instruction personalityContext newsContext =
     ''Using this personality profile: '' @ personalityContext @ [CHR 0x0A, CHR 0x0A] @
     ''And these news items: '' @ newsContext @ [CHR 0x0A, CHR 0x0A] @
     ''Generate a NEW and DIFFERENT engaging Discord message. Use a fresh approach while maintaining the personality profile. Return JSON with the draft message and detailed metadata.''"

text \<open>\<^verbatim>\<open>JSON.stringify(n.news_summary.slice(0, 3))\<close>\<close>

definition newsContext :: "json_stringify \<Rightarrow> jsval \<Rightarrow> string result" where
  "newsContext JSON_stringify n =
     (case get_prop n ''news_summary'' of
        Inl e \<Rightarrow> Inl e
      | Inr summary \<Rightarrow>
          (case slice_0_3 summary of
             Inl e \<Rightarrow> Inl e
           | Inr items \<Rightarrow> Inr (interpolate_json JSON_stringify items)))"

text \<open>\<^verbatim>\<open>JSON.stringify(p.personality_profile)\<close>\<close>

definition personalityContext :: "json_stringify \<Rightarrow> jsval \<Rightarrow> string result" where
  "personalityContext JSON_stringify p =
     (case get_prop p ''personality_profile'' of
        Inl e \<Rightarrow> Inl e
      | Inr profile \<Rightarrow> Inr (interpolate_json JSON_stringify profile))"

section \<open>The handlers\<close>

record world =
  result :: WorkflowResult
  requests :: "request list"
  renders :: "WorkflowResult list"

text \<open>
  \<^verbatim>\<open>setResult\<close> with an updater function; every state it installs is appended
  to \<open>renders\<close>, so that the intermediate states of a run can be inspected.
\<close>

definition setResult :: "(WorkflowResult \<Rightarrow> WorkflowResult) \<Rightarrow> world \<Rightarrow> world" where
  "setResult f w =
     (let s = f (result w) in w\<lparr>result := s, renders := renders w @ [s]\<rparr>)"

text \<open>One stage: the call, then the decoding of what it returned.\<close>

definition stage :: "remote \<Rightarrow> json_parse \<Rightarrow> string \<Rightarrow> string \<Rightarrow> jsval io" where
  "stage net JSON_parse agentId msg =
     bind_io (callAgent net agentId msg) (\<lambda>data. pure_io (decode_payload JSON_parse data))"

text \<open>The body of the \<^verbatim>\<open>try\<close> block of \<^verbatim>\<open>handleGenerateDraft\<close>, up to the commit.\<close>

definition generate_try ::
  "remote \<Rightarrow> json_parse \<Rightarrow> json_stringify \<Rightarrow> (jsval \<times> jsval \<times> jsval) io" where
  "generate_try net JSON_parse JSON_stringify =
     bind_io (stage net JSON_parse AGENT_IDS_news news_instruction) (\<lambda>newsResult.
     bind_io (stage net JSON_parse AGENT_IDS_personality personality_instruction) (\<lambda>personalityResult.
     bind_io (pure_io (newsContext JSON_stringify newsResult)) (\<lambda>nc.
     bind_io (pure_io (personalityContext JSON_stringify personalityResult)) (\<lambda>pc.
     bind_io (stage net JSON_parse AGENT_IDS_draft (draft_instruction pc nc)) (\<lambda>draftResult.
     pure_io (Inr (newsResult, personalityResult, draftResult)))))))"

text \<open>
  The handlers are \<^verbatim>\<open>async\<close> functions: the first component of the result is
  how the returned promise settles (\<open>Inr ()\<close> fulfilled, \<open>Inl e\<close> rejected). Both
  catch whatever their \<^verbatim>\<open>try\<close> block throws, and nothing outside it can throw.
  \<open>result w\<close> is the React state when the handler is entered: the \<^verbatim>\<open>result\<close> a
  handler closes over and the \<^verbatim>\<open>prev\<close> of its first update are both this value.
\<close>

definition handleGenerateDraft ::
  "remote \<Rightarrow> json_parse \<Rightarrow> json_stringify \<Rightarrow> world \<Rightarrow> unit result \<times> world" where
  "handleGenerateDraft net JSON_parse JSON_stringify w =
     (let w1 = setResult (\<lambda>prev. prev\<lparr>loading := True, error := None\<rparr>) w
      in case generate_try net JSON_parse JSON_stringify (requests w1) of
           (Inr (newsResult, personalityResult, draftResult), reqs) \<Rightarrow>
             (Inr (),
              setResult (\<lambda>prev. \<lparr>news = newsResult, personality = personalityResult,
                                draft = draftResult, loading = False, error = None\<rparr>)
                (w1\<lparr>requests := reqs\<rparr>))
         | (Inl err, reqs) \<Rightarrow>
             (Inr (),
              setResult (\<lambda>prev. prev\<lparr>loading := False,
                                     error := Some (err_message err ''Failed to generate draft'')\<rparr>)
                (w1\<lparr>requests := reqs\<rparr>)))"

text \<open>
  The body of the \<^verbatim>\<open>try\<close> block of \<^verbatim>\<open>handleRegenerateDraft\<close>; \<open>r\<close> is the
  \<^verbatim>\<open>result\<close> the handler closed over.
\<close>

definition regenerate_try ::
  "remote \<Rightarrow> json_parse \<Rightarrow> json_stringify \<Rightarrow> WorkflowResult \<Rightarrow> jsval io" where
  "regenerate_try net JSON_parse JSON_stringify r =
     bind_io (pure_io (newsContext JSON_stringify (news r))) (\<lambda>nc.
     bind_io (pure_io (personalityContext JSON_stringify (personality r))) (\<lambda>pc.
     stage net JSON_parse AGENT_IDS_draft (regenerate_instruction pc nc)))"

definition handleRegenerateDraft ::
  "remote \<Rightarrow> json_parse \<Rightarrow> json_stringify \<Rightarrow> world \<Rightarrow> unit result \<times> world" where
  "handleRegenerateDraft net JSON_parse JSON_stringify w =
     (if falsy (news (result w)) \<or> falsy (personality (result w)) then (Inr (), w)
      else
        let w1 = setResult (\<lambda>prev. prev\<lparr>loading := True, error := None\<rparr>) w
        in case regenerate_try net JSON_parse JSON_stringify (result w) (requests w1) of
             (Inr draftResult, reqs) \<Rightarrow>
               (Inr (),
                setResult (\<lambda>prev. prev\<lparr>draft := draftResult, loading := False\<rparr>)
                  (w1\<lparr>requests := reqs\<rparr>))
           | (Inl err, reqs) \<Rightarrow>
               (Inr (),
                setResult (\<lambda>prev. prev\<lparr>loading := False,
                                       error := Some (err_message err ''Failed to regenerate draft'')\<rparr>)
                  (w1\<lparr>requests := reqs\<rparr>)))"


section \<open>Sequences of runs\<close>

text \<open>
  The two operations a user can start, each with the remote side it meets, and
  a sequence of them run one after the other from the initial state.
\<close>

datatype operation = Generate remote | Regenerate remote

fun run_operation :: "json_parse \<Rightarrow> json_stringify \<Rightarrow> operation \<Rightarrow> world \<Rightarrow> world" where
  "run_operation P S (Generate net) w = snd (handleGenerateDraft net P S w)"
| "run_operation P S (Regenerate net) w = snd (handleRegenerateDraft net P S w)"

fun run_operations ::
  "json_parse \<Rightarrow> json_stringify \<Rightarrow> operation list \<Rightarrow> world \<Rightarrow> world" where
  "run_operations P S [] w = w"
| "run_operations P S (op # ops) w = run_operations P S ops (run_operation P S op w)"

definition initial_world :: world where
  "initial_world = \<lparr>result = initial_result, requests = [], renders = []\<rparr>"

section \<open>Sample replies\<close>

text \<open>
  Bodies as \<^verbatim>\<open>/api/agent\<close> returns them, and a remote side that answers by
  agent id. They are the concrete inputs of the instances below.
\<close>

definition reply_ok :: "jsval \<Rightarrow> jsval" where
  "reply_ok v = JObj [(''success'', JBool True), (''response'', v)]"

definition reply_failed :: jsval where
  "reply_failed = JObj [(''success'', JBool False)]"

definition ex_item :: "string \<Rightarrow> real \<Rightarrow> jsval" where
  "ex_item h score = JObj [(''headline'', JStr h), (''relevance_score'', JNum score)]"

definition ex_news5 :: jsval where
  "ex_news5 = JObj [(''news_summary'',
       JArr [ex_item ''a'' (1/5), ex_item ''b'' (3/2), ex_item ''c'' (1/2),
             ex_item ''d'' (9/10), ex_item ''e'' 1]),
     (''confidence'', JNum (9/10))]"

definition ex_news2 :: jsval where
  "ex_news2 = JObj [(''news_summary'', JArr [ex_item ''a'' (1/5), ex_item ''b'' (3/2)]),
     (''confidence'', JNum (9/10))]"

definition ex_profile :: jsval where
  "ex_profile = JObj [(''personality_profile'', JObj [(''tone'', JStr ''friendly'')]),
     (''confidence'', JNum (4/5))]"

definition ex_draft :: jsval where
  "ex_draft = JObj [(''draft_message'', JStr ''hello''), (''confidence'', JNum (7/10))]"

definition quoted :: "string \<Rightarrow> string" where
  "quoted s = CHR 0x22 # s @ [CHR 0x22]"

definition ex_draft_text :: string where
  "ex_draft_text = ''{'' @ quoted ''draft_message'' @ '':'' @ quoted ''hello'' @ '','' @
     quoted ''confidence'' @ '':0.7}''"

definition ex_news2_text :: string where
  "ex_news2_text = ''{'' @ quoted ''news_summary'' @ '':[{'' @
     quoted ''headline'' @ '':'' @ quoted ''a'' @ '','' @ quoted ''relevance_score'' @ '':0.2},{'' @
     quoted ''headline'' @ '':'' @ quoted ''b'' @ '','' @ quoted ''relevance_score'' @ '':1.5}],'' @
     quoted ''confidence'' @ '':0.9}''"

text \<open>
  A sample \<^verbatim>\<open>JSON.parse\<close> and \<^verbatim>\<open>JSON.stringify\<close>, given by a table of the
  texts and values the instances decode and encode.
\<close>

definition ex_texts :: "(string \<times> jsval) list" where
  "ex_texts = [(ex_draft_text, ex_draft), (ex_news2_text, ex_news2)]"

definition ex_parse :: json_parse where
  "ex_parse s = (case map_of ex_texts s of
       Some v \<Rightarrow> Inr v
     | None \<Rightarrow> Inl (SyntaxError ''Unexpected token in JSON''))"

definition ex_stringify :: json_stringify where
  "ex_stringify v = (case map_of (map (\<lambda>(t, u). (u, t)) ex_texts) v of
       Some t \<Rightarrow> t
     | None \<Rightarrow> ''null'')"

definition ex_remote :: "jsval \<Rightarrow> jsval \<Rightarrow> jsval \<Rightarrow> remote" where
  "ex_remote news_body personality_body draft_body = (\<lambda>reqs req.
     Inr (if agent_id req = AGENT_IDS_news then news_body
          else if agent_id req = AGENT_IDS_personality then personality_body
          else draft_body))"

definition ex_world :: "WorkflowResult \<Rightarrow> world" where
  "ex_world s = \<lparr>result = s, requests = [], renders = []\<rparr>"

text \<open>A state left by an earlier successful run, with its draft.\<close>

definition ex_cached :: "jsval \<Rightarrow> WorkflowResult" where
  "ex_cached n =
     \<lparr>news = n, personality = ex_profile,
      draft = JObj [(''draft_message'', JStr ''old'')], loading = False, error = None\<rparr>"

section \<open>\<^verbatim>\<open>JSON.parse\<close> and \<^verbatim>\<open>JSON.stringify\<close>\<close>

text \<open>
  The handlers use \<^verbatim>\<open>JSON.parse\<close> and \<^verbatim>\<open>JSON.stringify\<close> as the platform gives
  them. To state what decoding does to the two representations of one payload,
  the two functions are modelled here after their definition in ECMA-262, on
  the values of \<^typ>\<open>jsval\<close>. Strings are sequences of 8-bit characters; a
  four-digit escape above \<^verbatim>\<open>00FF\<close> is outside the model and a syntax error in it.
  Properties keep the order of the text, and a repeated key overwrites the
  earlier value in place. The text of a number (\<open>W\<close>) and the reading of a number
  token (\<open>R\<close>) convert IEEE doubles and stay parameters: the model fixes only
  where a number token begins and ends. The parser carries fuel: every nested
  call gets one unit less, and \<open>JSON_parse\<close> starts with the length of the text.
\<close>

definition is_ws :: "char \<Rightarrow> bool" where
  "is_ws c = (c = CHR 0x20 \<or> c = CHR 0x09 \<or> c = CHR 0x0A \<or> c = CHR 0x0D)"

definition skip_ws :: "string \<Rightarrow> string" where
  "skip_ws s = dropWhile is_ws s"

definition hex_digit :: "nat \<Rightarrow> char" where
  "hex_digit n = ''0123456789abcdef'' ! n"

definition hex_value :: "char \<Rightarrow> nat option" where
  "hex_value c =
     (let n = of_char c :: nat in
      if 48 \<le> n \<and> n \<le> 57 then Some (n - 48)
      else if 97 \<le> n \<and> n \<le> 102 then Some (n - 87)
      else if 65 \<le> n \<and> n \<le> 70 then Some (n - 55)
      else None)"

text \<open>\<^verbatim>\<open>QuoteJSONString\<close>: the escapes \<^verbatim>\<open>JSON.stringify\<close> writes.\<close>

definition escape_char :: "char \<Rightarrow> string" where
  "escape_char c =
     (if c = CHR 0x22 then [CHR 0x5C, CHR 0x22]
      else if c = CHR 0x5C then [CHR 0x5C, CHR 0x5C]
      else if c = CHR 0x08 then [CHR 0x5C, CHR ''b'']
      else if c = CHR 0x0C then [CHR 0x5C, CHR ''f'']
      else if c = CHR 0x0A then [CHR 0x5C, CHR ''n'']
      else if c = CHR 0x0D then [CHR 0x5C, CHR ''r'']
      else if c = CHR 0x09 then [CHR 0x5C, CHR ''t'']
      else if (of_char c :: nat) < 32 then
        [CHR 0x5C, CHR ''u'', CHR ''0'', CHR ''0'',
         hex_digit (of_char c div 16), hex_digit (of_char c mod 16)]
      else [c])"

definition quote_string :: "string \<Rightarrow> string" where
  "quote_string s = CHR 0x22 # concat (map escape_char s) @ [CHR 0x22]"

text \<open>The escapes \<^verbatim>\<open>JSON.parse\<close> reads; \<open>parse_chars\<close> starts after the opening quote.\<close>

definition unescape :: "char \<Rightarrow> char option" where
  "unescape e =
     (if e = CHR 0x22 then Some (CHR 0x22)
      else if e = CHR 0x5C then Some (CHR 0x5C)
      else if e = CHR ''/'' then Some (CHR ''/'')
      else if e = CHR ''b'' then Some (CHR 0x08)
      else if e = CHR ''f'' then Some (CHR 0x0C)
      else if e = CHR ''n'' then Some (CHR 0x0A)
      else if e = CHR ''r'' then Some (CHR 0x0D)
      else if e = CHR ''t'' then Some (CHR 0x09)
      else None)"

definition unicode_escape :: "char \<Rightarrow> char \<Rightarrow> char \<Rightarrow> char \<Rightarrow> char option" where
  "unicode_escape a b c d =
     (case (hex_value a, hex_value b, hex_value c, hex_value d) of
        (Some x, Some y, Some z, Some u) \<Rightarrow>
          (let n = ((x * 16 + y) * 16 + z) * 16 + u
           in if n < 256 then Some (char_of n) else None)
      | _ \<Rightarrow> None)"

definition cons_char :: "char \<Rightarrow> (string \<times> string) option \<Rightarrow> (string \<times> string) option" where
  "cons_char c r = (case r of None \<Rightarrow> None | Some (str, rest) \<Rightarrow> Some (c # str, rest))"

fun parse_chars :: "string \<Rightarrow> (string \<times> string) option" where
  "parse_chars [] = None"
| "parse_chars (c # s) =
     (if c = CHR 0x22 then Some ([], s)
      else if c = CHR 0x5C then
        (case s of
           [] \<Rightarrow> None
         | e # s1 \<Rightarrow>
             if e = CHR ''u'' then
               (case s1 of
                  a # b # c' # d # s2 \<Rightarrow>
                    (case unicode_escape a b c' d of
                       None \<Rightarrow> None
                     | Some ch \<Rightarrow> cons_char ch (parse_chars s2))
                | _ \<Rightarrow> None)
             else
               (case unescape e of
                  None \<Rightarrow> None
                | Some ch \<Rightarrow> cons_char ch (parse_chars s1)))
      else if (of_char c :: nat) < 32 then None
      else cons_char c (parse_chars s))"

text \<open>The characters a number token is made of.\<close>

definition is_number_char :: "char \<Rightarrow> bool" where
  "is_number_char c = (c \<in> set ''+-.0123456789eE'')"

text \<open>\<^verbatim>\<open>CreateDataProperty\<close> on an object under construction.\<close>

fun set_prop :: "(string \<times> jsval) list \<Rightarrow> string \<Rightarrow> jsval \<Rightarrow> (string \<times> jsval) list" where
  "set_prop [] k v = [(k, v)]"
| "set_prop ((k', v') # kvs) k v =
     (if k' = k then (k, v) # kvs else (k', v') # set_prop kvs k v)"

fun parse_value :: "(string \<Rightarrow> real option) \<Rightarrow> nat \<Rightarrow> string \<Rightarrow> (jsval \<times> string) option"
  and parse_elements :: "(string \<Rightarrow> real option) \<Rightarrow> nat \<Rightarrow> string \<Rightarrow> (jsval list \<times> string) option"
  and parse_members ::
    "(string \<Rightarrow> real option) \<Rightarrow> nat \<Rightarrow> (string \<times> jsval) list \<Rightarrow> string \<Rightarrow> (jsval \<times> string) option"
where
  "parse_value R 0 s = None"
| "parse_value R (Suc k) s =
     (case skip_ws s of
        [] \<Rightarrow> None
      | c # rest \<Rightarrow>
          if c = CHR ''{'' then
            (case skip_ws rest of
               [] \<Rightarrow> None
             | c' # rest' \<Rightarrow>
                 if c' = CHR ''}'' then Some (JObj [], rest')
                 else parse_members R k [] (c' # rest'))
          else if c = CHR ''['' then
            (case skip_ws rest of
               [] \<Rightarrow> None
             | c' # rest' \<Rightarrow>
                 if c' = CHR '']'' then Some (JArr [], rest')
                 else (case parse_elements R k (c' # rest') of
                         None \<Rightarrow> None
                       | Some (vs, rest'') \<Rightarrow> Some (JArr vs, rest'')))
          else if c = CHR 0x22 then
            (case parse_chars rest of
               None \<Rightarrow> None
             | Some (str, rest') \<Rightarrow> Some (JStr str, rest'))
          else if take 4 (c # rest) = ''true'' then Some (JBool True, drop 4 (c # rest))
          else if take 5 (c # rest) = ''false'' then Some (JBool False, drop 5 (c # rest))
          else if take 4 (c # rest) = ''null'' then Some (JNull, drop 4 (c # rest))
          else
            (let tok = takeWhile is_number_char (c # rest)
             in if tok = [] then None
                else (case R tok of
                        None \<Rightarrow> None
                      | Some x \<Rightarrow> Some (JNum x, dropWhile is_number_char (c # rest)))))"
| "parse_elements R 0 s = None"
| "parse_elements R (Suc k) s =
     (case parse_value R k s of
        None \<Rightarrow> None
      | Some (v, rest) \<Rightarrow>
          (case skip_ws rest of
             [] \<Rightarrow> None
           | c # rest' \<Rightarrow>
               if c = CHR '','' then
                 (case parse_elements R k rest' of
                    None \<Rightarrow> None
                  | Some (vs, rest'') \<Rightarrow> Some (v # vs, rest''))
               else if c = CHR '']'' then Some ([v], rest')
               else None))"
| "parse_members R 0 acc s = None"
| "parse_members R (Suc k) acc s =
     (case skip_ws s of
        [] \<Rightarrow> None
      | q # s1 \<Rightarrow>
          if q \<noteq> CHR 0x22 then None
          else
            (case parse_chars s1 of
               None \<Rightarrow> None
             | Some (key, s2) \<Rightarrow>
                 (case skip_ws s2 of
                    [] \<Rightarrow> None
                  | c # s3 \<Rightarrow>
                      if c \<noteq> CHR '':'' then None
                      else
                        (case parse_value R k s3 of
                           None \<Rightarrow> None
                         | Some (v, s4) \<Rightarrow>
                             (case skip_ws s4 of
                                [] \<Rightarrow> None
                              | d # s5 \<Rightarrow>
                                  if d = CHR '','' then parse_members R k (set_prop acc key v) s5
                                  else if d = CHR ''}'' then Some (JObj (set_prop acc key v), s5)
                                  else None)))))"

definition JSON_parse :: "(string \<Rightarrow> real option) \<Rightarrow> json_parse" where
  "JSON_parse R s =
     (case parse_value R (length s) s of
        None \<Rightarrow> Inl (SyntaxError ''Unexpected token in JSON'')
      | Some (v, rest) \<Rightarrow>
          if skip_ws rest = [] then Inr v
          else Inl (SyntaxError ''Unexpected token in JSON''))"

text \<open>
  \<^verbatim>\<open>SerializeJSONProperty\<close> without indentation. In an array \<^verbatim>\<open>undefined\<close> is
  written \<^verbatim>\<open>null\<close>; in an object a property holding \<^verbatim>\<open>undefined\<close> is left out.
  At top level \<^verbatim>\<open>JSON.stringify(undefined)\<close> is not a string: callers go through
  \<open>interpolate_json\<close>, which never asks for it.
\<close>

fun join_comma :: "string list \<Rightarrow> string" where
  "join_comma [] = []"
| "join_comma [x] = x"
| "join_comma (x # y # ys) = x @ '','' @ join_comma (y # ys)"

fun JSON_stringify :: "(real \<Rightarrow> string) \<Rightarrow> json_stringify" where
  "JSON_stringify W JUndefined = ''null''"
| "JSON_stringify W JNull = ''null''"
| "JSON_stringify W (JBool b) = (if b then ''true'' else ''false'')"
| "JSON_stringify W (JNum x) = W x"
| "JSON_stringify W (JStr s) = quote_string s"
| "JSON_stringify W (JArr xs) = ''['' @ join_comma (map (JSON_stringify W) xs) @ '']''"
| "JSON_stringify W (JObj kvs) =
     ''{'' @ join_comma (map (\<lambda>kv. quote_string (fst kv) @ '':'' @ JSON_stringify W (snd kv))
                          (filter (\<lambda>kv. snd kv \<noteq> JUndefined) kvs)) @ ''}''"

text \<open>
  The values \<^verbatim>\<open>response.json()\<close> can produce: no \<^verbatim>\<open>undefined\<close> inside, no key
  twice in one object. \<open>numbers_of\<close> lists the numbers a value holds, and
  \<open>number_text W R x\<close> says that the text \<open>W\<close> writes for \<open>x\<close> is a number token that
  \<open>R\<close> reads as \<open>x\<close>.
\<close>

fun json_value :: "jsval \<Rightarrow> bool" where
  "json_value JUndefined = False"
| "json_value (JArr xs) = (\<forall>x \<in> set xs. json_value x)"
| "json_value (JObj kvs) = (distinct (map fst kvs) \<and> (\<forall>kv \<in> set kvs. json_value (snd kv)))"
| "json_value v = True"

fun numbers_of :: "jsval \<Rightarrow> real list" where
  "numbers_of (JNum x) = [x]"
| "numbers_of (JArr xs) = concat (map numbers_of xs)"
| "numbers_of (JObj kvs) = concat (map (\<lambda>kv. numbers_of (snd kv)) kvs)"
| "numbers_of v = []"

definition number_text :: "(real \<Rightarrow> string) \<Rightarrow> (string \<Rightarrow> real option) \<Rightarrow> real \<Rightarrow> bool" where
  "number_text W R x = (W x \<noteq> [] \<and> (\<forall>c \<in> set (W x). is_number_char c) \<and> R (W x) = Some x)"

text \<open>
  What may follow the text of a value for a number token to end where the value
  ends.
\<close>

definition delimited :: "string \<Rightarrow> bool" where
  "delimited rest = (case rest of [] \<Rightarrow> True | c # _ \<Rightarrow> \<not> is_number_char c)"


text \<open>
  A sample pair for the text of numbers: one decimal digit after the point, read
  back exactly.
\<close>

definition digit_char :: "nat \<Rightarrow> char" where
  "digit_char n = ''0123456789'' ! n"

definition is_digit :: "char \<Rightarrow> bool" where
  "is_digit c = (48 \<le> (of_char c :: nat) \<and> (of_char c :: nat) \<le> 57)"

definition digits_value :: "string \<Rightarrow> nat" where
  "digits_value s = foldl (\<lambda>a c. 10 * a + (of_char c - 48)) 0 s"

fun nat_digits :: "nat \<Rightarrow> string" where
  "nat_digits n =
     (if n < 10 then [digit_char n] else nat_digits (n div 10) @ [digit_char (n mod 10)])"

declare nat_digits.simps [simp del]

definition ex_num_show :: "real \<Rightarrow> string" where
  "ex_num_show x =
     (let a = nat \<lfloor>\<bar>x\<bar> * 10\<rfloor>
      in (if x < 0 then ''-'' else []) @ nat_digits (a div 10) @ ''.'' @ [digit_char (a mod 10)])"

definition ex_num_read :: "string \<Rightarrow> real option" where
  "ex_num_read s =
     (let neg = (s \<noteq> [] \<and> hd s = CHR ''-'');
          body = (if neg then tl s else s);
          ip = takeWhile is_digit body;
          r = dropWhile is_digit body;
          sgn = (if neg then - 1 else 1)
      in if ip = [] then None
         else (case r of
                 [] \<Rightarrow> Some (sgn * real (digits_value ip))
               | c # fp \<Rightarrow>
                   if c = CHR ''.'' \<and> fp \<noteq> [] \<and> list_all is_digit fp
                   then Some (sgn * (real (digits_value ip) +
                                     real (digits_value fp) / 10 ^ length fp))
                   else None))"


section \<open>Properties of the building blocks\<close>

lemma bind_io_Inl: "m reqs = (Inl e, r') \<Longrightarrow> bind_io m f reqs = (Inl e, r')"
  by (simp add: bind_io_def)

lemma bind_io_Inr: "m reqs = (Inr a, r') \<Longrightarrow> bind_io m f reqs = f a r'"
  by (simp add: bind_io_def)

lemma bind_io_pure:
  "bind_io (pure_io r) f reqs = (case r of Inl e \<Rightarrow> (Inl e, reqs) | Inr a \<Rightarrow> f a reqs)"
  by (simp add: bind_io_def pure_io_def split: sum.splits)

text \<open>Every call is recorded, whatever its outcome.\<close>

lemma callAgent_requests:
  "snd (callAgent net a m reqs) = reqs @ [\<lparr>agent_id = a, message = m\<rparr>]"
  by (simp add: callAgent_def Let_def split: sum.splits)

lemma stage_eq:
  "stage net P a m reqs =
     (case callAgent net a m reqs of
        (Inl e, reqs') \<Rightarrow> (Inl e, reqs')
      | (Inr data, reqs') \<Rightarrow> (decode_payload P data, reqs'))"
  by (simp add: stage_def bind_io_def pure_io_def split: prod.splits sum.splits)

lemma stage_requests:
  "snd (stage net P a m reqs) = reqs @ [\<lparr>agent_id = a, message = m\<rparr>]"
proof -
  obtain r reqs' where c: "callAgent net a m reqs = (r, reqs')"
    by (cases "callAgent net a m reqs")
  with callAgent_requests [of net a m reqs]
  have "reqs' = reqs @ [\<lparr>agent_id = a, message = m\<rparr>]" by simp
  with c show ?thesis by (cases r) (simp_all add: stage_eq)
qed

lemma decode_payload_structured: "\<not> typeof_string v \<Longrightarrow> decode_payload P v = Inr v"
  by (cases v) (simp_all add: decode_payload_def)

lemma take_3: "3 \<le> length xs \<Longrightarrow> take 3 xs = [xs ! 0, xs ! 1, xs ! 2]"
proof -
  assume "3 \<le> length xs"
  then obtain a b c ys where "xs = a # b # c # ys"
    by (cases xs; cases "tl xs"; cases "tl (tl xs)") auto
  then show ?thesis by (simp add: numeral_3_eq_3)
qed

lemma newsContext_array:
  "get_prop n ''news_summary'' = Inr (JArr items) \<Longrightarrow>
   newsContext S n = Inr (S (JArr (take 3 items)))"
  by (simp add: newsContext_def interpolate_json_def)

lemma get_prop_array_object: "get_prop n k = Inr (JArr items) \<Longrightarrow> \<exists>kvs. n = JObj kvs"
  by (cases n) simp_all

subsection \<open>The \<^verbatim>\<open>try\<close> blocks\<close>

lemma generate_try_stage1_fails:
  "stage net P AGENT_IDS_news news_instruction reqs = (Inl e, r1) \<Longrightarrow>
   generate_try net P S reqs = (Inl e, r1)"
  by (simp add: generate_try_def bind_io_Inl)

lemma generate_try_stage2_fails:
  "stage net P AGENT_IDS_news news_instruction reqs = (Inr n, r1) \<Longrightarrow>
   stage net P AGENT_IDS_personality personality_instruction r1 = (Inl e, r2) \<Longrightarrow>
   generate_try net P S reqs = (Inl e, r2)"
  by (simp add: generate_try_def bind_io_Inl bind_io_Inr)

lemma generate_try_to_draft:
  "stage net P AGENT_IDS_news news_instruction reqs = (Inr n, r1) \<Longrightarrow>
   stage net P AGENT_IDS_personality personality_instruction r1 = (Inr p, r2) \<Longrightarrow>
   newsContext S n = Inr nc \<Longrightarrow>
   personalityContext S p = Inr pc \<Longrightarrow>
   generate_try net P S reqs =
     (case stage net P AGENT_IDS_draft (draft_instruction pc nc) r2 of
        (Inl e, r3) \<Rightarrow> (Inl e, r3)
      | (Inr d, r3) \<Rightarrow> (Inr (n, p, d), r3))"
  by (simp add: generate_try_def bind_io_Inr bind_io_pure) (simp add: bind_io_def pure_io_def)

lemma generate_try_news:
  "generate_try net P S reqs = (Inr (n, p, d), r3) \<Longrightarrow>
   \<exists>r1. stage net P AGENT_IDS_news news_instruction reqs = (Inr n, r1)"
  by (auto simp: generate_try_def bind_io_def pure_io_def split: prod.splits sum.splits)

lemma regenerate_try_eq:
  "newsContext S (news r) = Inr nc \<Longrightarrow>
   personalityContext S (personality r) = Inr pc \<Longrightarrow>
   regenerate_try net P S r reqs =
     stage net P AGENT_IDS_draft (regenerate_instruction pc nc) reqs"
  by (simp add: regenerate_try_def bind_io_pure)

subsection \<open>The handlers, by outcome of the \<^verbatim>\<open>try\<close> block\<close>

lemma handleGenerateDraft_fails:
  "generate_try net P S (requests w) = (Inl e, r) \<Longrightarrow>
   handleGenerateDraft net P S w =
     (Inr (),
      \<lparr>result = (result w)\<lparr>loading := False,
                             error := Some (err_message e ''Failed to generate draft'')\<rparr>,
       requests = r,
       renders = renders w @
         [(result w)\<lparr>loading := True, error := None\<rparr>,
          (result w)\<lparr>loading := False,
                      error := Some (err_message e ''Failed to generate draft'')\<rparr>]\<rparr>)"
  by (simp add: handleGenerateDraft_def setResult_def Let_def)

lemma handleGenerateDraft_succeeds:
  "generate_try net P S (requests w) = (Inr (n, p, d), r) \<Longrightarrow>
   handleGenerateDraft net P S w =
     (Inr (),
      \<lparr>result = \<lparr>news = n, personality = p, draft = d, loading = False, error = None\<rparr>,
       requests = r,
       renders = renders w @
         [(result w)\<lparr>loading := True, error := None\<rparr>,
          \<lparr>news = n, personality = p, draft = d, loading = False, error = None\<rparr>]\<rparr>)"
  by (simp add: handleGenerateDraft_def setResult_def Let_def)

lemma handleRegenerateDraft_guard:
  "falsy (news (result w)) \<or> falsy (personality (result w)) \<Longrightarrow>
   handleRegenerateDraft net P S w = (Inr (), w)"
  by (simp add: handleRegenerateDraft_def)

lemma handleRegenerateDraft_fails:
  "\<not> falsy (news (result w)) \<Longrightarrow> \<not> falsy (personality (result w)) \<Longrightarrow>
   regenerate_try net P S (result w) (requests w) = (Inl e, r) \<Longrightarrow>
   handleRegenerateDraft net P S w =
     (Inr (),
      \<lparr>result = (result w)\<lparr>loading := False,
                             error := Some (err_message e ''Failed to regenerate draft'')\<rparr>,
       requests = r,
       renders = renders w @
         [(result w)\<lparr>loading := True, error := None\<rparr>,
          (result w)\<lparr>loading := False,
                      error := Some (err_message e ''Failed to regenerate draft'')\<rparr>]\<rparr>)"
  by (simp add: handleRegenerateDraft_def setResult_def Let_def)

lemma handleRegenerateDraft_succeeds:
  "\<not> falsy (news (result w)) \<Longrightarrow> \<not> falsy (personality (result w)) \<Longrightarrow>
   regenerate_try net P S (result w) (requests w) = (Inr d, r) \<Longrightarrow>
   handleRegenerateDraft net P S w =
     (Inr (),
      \<lparr>result = (result w)\<lparr>draft := d, loading := False, error := None\<rparr>,
       requests = r,
       renders = renders w @
         [(result w)\<lparr>loading := True, error := None\<rparr>,
          (result w)\<lparr>draft := d, loading := False, error := None\<rparr>]\<rparr>)"
  by (simp add: handleRegenerateDraft_def setResult_def Let_def)

text \<open>
  A run of either handler installs at most two states: the loading state, then
  the state it ends in, which is never loading.
\<close>

lemma generate_renders:
  "\<exists>s2. renders (snd (handleGenerateDraft net P S w)) =
          renders w @ [(result w)\<lparr>loading := True, error := None\<rparr>, s2]
      \<and> result (snd (handleGenerateDraft net P S w)) = s2
      \<and> loading s2 = False"
proof -
  obtain r reqs' where g: "generate_try net P S (requests w) = (r, reqs')"
    by (cases "generate_try net P S (requests w)")
  show ?thesis
  proof (cases r)
    case (Inl e)
    with g show ?thesis by (simp add: handleGenerateDraft_fails)
  next
    case (Inr t)
    then obtain n p d where "r = Inr (n, p, d)" by (cases t) auto
    with g show ?thesis by (simp add: handleGenerateDraft_succeeds)
  qed
qed

lemma regenerate_renders_cached:
  assumes "\<not> falsy (news (result w))" and "\<not> falsy (personality (result w))"
  shows "\<exists>s2. renders (snd (handleRegenerateDraft net P S w)) =
          renders w @ [(result w)\<lparr>loading := True, error := None\<rparr>, s2]
      \<and> result (snd (handleRegenerateDraft net P S w)) = s2
      \<and> loading s2 = False"
proof -
  obtain r reqs' where g: "regenerate_try net P S (result w) (requests w) = (r, reqs')"
    by (cases "regenerate_try net P S (result w) (requests w)")
  show ?thesis
  proof (cases r)
    case (Inl e)
    with g show ?thesis by (simp add: handleRegenerateDraft_fails [OF assms])
  next
    case (Inr d)
    with g show ?thesis by (simp add: handleRegenerateDraft_succeeds [OF assms])
  qed
qed

lemma regenerate_renders:
  "handleRegenerateDraft net P S w = (Inr (), w) \<or>
   (\<exists>s2. renders (snd (handleRegenerateDraft net P S w)) =
          renders w @ [(result w)\<lparr>loading := True, error := None\<rparr>, s2]
      \<and> result (snd (handleRegenerateDraft net P S w)) = s2
      \<and> loading s2 = False)"
proof (cases "falsy (news (result w)) \<or> falsy (personality (result w))")
  case True
  then show ?thesis by (simp add: handleRegenerateDraft_guard)
next
  case False
  then have "\<not> falsy (news (result w))" and "\<not> falsy (personality (result w))"
    by simp_all
  from regenerate_renders_cached [OF this, of net P S] show ?thesis by blast
qed

subsection \<open>The request of the draft stage\<close>

lemma generate_draft_request:
  assumes "stage net P AGENT_IDS_news news_instruction (requests w) = (Inr n, r1)"
    and "stage net P AGENT_IDS_personality personality_instruction r1 = (Inr p, r2)"
    and "newsContext S n = Inr nc"
    and "personalityContext S p = Inr pc"
  shows "requests (snd (handleGenerateDraft net P S w)) =
           r2 @ [\<lparr>agent_id = AGENT_IDS_draft, message = draft_instruction pc nc\<rparr>]"
proof -
  obtain r r3 where s3: "stage net P AGENT_IDS_draft (draft_instruction pc nc) r2 = (r, r3)"
    by (cases "stage net P AGENT_IDS_draft (draft_instruction pc nc) r2")
  with stage_requests [of net P AGENT_IDS_draft "draft_instruction pc nc" r2]
  have r3: "r3 = r2 @ [\<lparr>agent_id = AGENT_IDS_draft, message = draft_instruction pc nc\<rparr>]"
    by simp
  show ?thesis
  proof (cases r)
    case (Inl e)
    with s3 have "generate_try net P S (requests w) = (Inl e, r3)"
      by (simp add: generate_try_to_draft [OF assms])
    then show ?thesis by (simp add: handleGenerateDraft_fails r3)
  next
    case (Inr d)
    with s3 have "generate_try net P S (requests w) = (Inr (n, p, d), r3)"
      by (simp add: generate_try_to_draft [OF assms])
    then show ?thesis by (simp add: handleGenerateDraft_succeeds r3)
  qed
qed

lemma regenerate_draft_request:
  assumes "\<not> falsy (news (result w))" and "\<not> falsy (personality (result w))"
    and "newsContext S (news (result w)) = Inr nc"
    and "personalityContext S (personality (result w)) = Inr pc"
  shows "requests (snd (handleRegenerateDraft net P S w)) =
           requests w @
             [\<lparr>agent_id = AGENT_IDS_draft, message = regenerate_instruction pc nc\<rparr>]"
proof -
  let ?m = "regenerate_instruction pc nc"
  obtain r r3 where s3: "stage net P AGENT_IDS_draft ?m (requests w) = (r, r3)"
    by (cases "stage net P AGENT_IDS_draft ?m (requests w)")
  with stage_requests [of net P AGENT_IDS_draft ?m "requests w"]
  have r3: "r3 = requests w @ [\<lparr>agent_id = AGENT_IDS_draft, message = ?m\<rparr>]"
    by simp
  from s3 have t: "regenerate_try net P S (result w) (requests w) = (r, r3)"
    by (simp add: regenerate_try_eq [OF assms(3,4)])
  show ?thesis
  proof (cases r)
    case (Inl e)
    with t show ?thesis by (simp add: handleRegenerateDraft_fails [OF assms(1,2)] r3)
  next
    case (Inr d)
    with t show ?thesis by (simp add: handleRegenerateDraft_succeeds [OF assms(1,2)] r3)
  qed
qed

lemma full_state_after_success:
  assumes "stage net P AGENT_IDS_news news_instruction (requests w) = (Inr n, r1)"
    and "stage net P AGENT_IDS_personality personality_instruction r1 = (Inr p, r2)"
    and "newsContext S n = Inr nc"
    and "personalityContext S p = Inr pc"
    and "stage net P AGENT_IDS_draft (draft_instruction pc nc) r2 = (Inr d, r3)"
  shows "result (snd (handleGenerateDraft net P S w)) =
           \<lparr>news = n, personality = p, draft = d, loading = False, error = None\<rparr>"
proof -
  have "generate_try net P S (requests w) = (Inr (n, p, d), r3)"
    using assms(5) by (simp add: generate_try_to_draft [OF assms(1-4)])
  then show ?thesis by (simp add: handleGenerateDraft_succeeds)
qed

subsection \<open>The sample replies, evaluated\<close>

lemma agent_ids_distinct:
  "AGENT_IDS_news \<noteq> AGENT_IDS_personality" "AGENT_IDS_news \<noteq> AGENT_IDS_draft"
  "AGENT_IDS_personality \<noteq> AGENT_IDS_draft" "AGENT_IDS_personality \<noteq> AGENT_IDS_news"
  "AGENT_IDS_draft \<noteq> AGENT_IDS_news" "AGENT_IDS_draft \<noteq> AGENT_IDS_personality"
  by (simp_all add: AGENT_IDS_news_def AGENT_IDS_personality_def AGENT_IDS_draft_def)

lemma ex_remote_simps:
  "ex_remote a b c reqs \<lparr>agent_id = AGENT_IDS_news, message = m\<rparr> = Inr a"
  "ex_remote a b c reqs \<lparr>agent_id = AGENT_IDS_personality, message = m\<rparr> = Inr b"
  "ex_remote a b c reqs \<lparr>agent_id = AGENT_IDS_draft, message = m\<rparr> = Inr c"
  by (simp_all add: ex_remote_def agent_ids_distinct)

lemma ex_callAgent_ok:
  "net reqs \<lparr>agent_id = a, message = m\<rparr> = Inr (reply_ok v) \<Longrightarrow>
   callAgent net a m reqs = (Inr v, reqs @ [\<lparr>agent_id = a, message = m\<rparr>])"
  by (simp add: callAgent_def reply_ok_def)

lemma ex_callAgent_failed:
  "net reqs \<lparr>agent_id = a, message = m\<rparr> = Inr reply_failed \<Longrightarrow>
   callAgent net a m reqs =
     (Inl (Error ''Agent call failed''), reqs @ [\<lparr>agent_id = a, message = m\<rparr>])"
  by (simp add: callAgent_def reply_failed_def)

lemma ex_stage_ok:
  "net reqs \<lparr>agent_id = a, message = m\<rparr> = Inr (reply_ok v) \<Longrightarrow> \<not> typeof_string v \<Longrightarrow>
   stage net P a m reqs = (Inr v, reqs @ [\<lparr>agent_id = a, message = m\<rparr>])"
  by (simp add: stage_eq ex_callAgent_ok decode_payload_structured)

lemma ex_stage_failed:
  "net reqs \<lparr>agent_id = a, message = m\<rparr> = Inr reply_failed \<Longrightarrow>
   stage net P a m reqs =
     (Inl (Error ''Agent call failed''), reqs @ [\<lparr>agent_id = a, message = m\<rparr>])"
  by (simp add: stage_eq ex_callAgent_failed)

lemma ex_not_strings:
  "\<not> typeof_string ex_news5" "\<not> typeof_string ex_news2"
  "\<not> typeof_string ex_profile" "\<not> typeof_string ex_draft"
  by (simp_all add: ex_news5_def ex_news2_def ex_profile_def ex_draft_def)

lemma ex_not_falsy:
  "\<not> falsy ex_news5" "\<not> falsy ex_news2" "\<not> falsy ex_profile" "\<not> falsy ex_draft"
  by (simp_all add: ex_news5_def ex_news2_def ex_profile_def ex_draft_def)

lemma ex_news5_summary:
  "get_prop ex_news5 ''news_summary'' =
     Inr (JArr [ex_item ''a'' (1/5), ex_item ''b'' (3/2), ex_item ''c'' (1/2),
                ex_item ''d'' (9/10), ex_item ''e'' 1])"
  by (simp add: ex_news5_def)

lemma ex_news2_summary:
  "get_prop ex_news2 ''news_summary'' = Inr (JArr [ex_item ''a'' (1/5), ex_item ''b'' (3/2)])"
  by (simp add: ex_news2_def)

lemma ex_newsContext5:
  "newsContext S ex_news5 =
     Inr (S (JArr [ex_item ''a'' (1/5), ex_item ''b'' (3/2), ex_item ''c'' (1/2)]))"
  by (simp add: newsContext_array [OF ex_news5_summary])

lemma ex_newsContext2:
  "newsContext S ex_news2 = Inr (S (JArr [ex_item ''a'' (1/5), ex_item ''b'' (3/2)]))"
  by (simp add: newsContext_array [OF ex_news2_summary])

lemma ex_personalityContext:
  "personalityContext S ex_profile = Inr (S (JObj [(''tone'', JStr ''friendly'')]))"
  by (simp add: personalityContext_def ex_profile_def interpolate_json_def)

subsection \<open>\<^verbatim>\<open>JSON.parse\<close> reads back what \<^verbatim>\<open>JSON.stringify\<close> writes\<close>

lemma skip_ws_start: "\<not> is_ws c \<Longrightarrow> skip_ws (c # s) = c # s"
  by (simp add: skip_ws_def)

lemma hex_value_hex_digit: "m < 16 \<Longrightarrow> hex_value (hex_digit m) = Some m"
proof -
  assume "m < 16"
  then have "m = 0 \<or> m = 1 \<or> m = 2 \<or> m = 3 \<or> m = 4 \<or> m = 5 \<or> m = 6 \<or> m = 7
      \<or> m = 8 \<or> m = 9 \<or> m = 10 \<or> m = 11 \<or> m = 12 \<or> m = 13 \<or> m = 14 \<or> m = 15"
    by arith
  then show ?thesis
    by (elim disjE) (simp_all add: hex_value_def hex_digit_def)
qed

lemma unicode_escape_low:
  assumes "(of_char c :: nat) < 32"
  shows "unicode_escape (CHR ''0'') (CHR ''0'') (hex_digit (of_char c div 16))
           (hex_digit (of_char c mod 16)) = Some c"
proof -
  let ?n = "of_char c :: nat"
  have z: "hex_value (CHR ''0'') = Some 0"
    by (simp add: hex_value_def)
  have h1: "hex_value (hex_digit (?n div 16)) = Some (?n div 16)"
    using assms by (intro hex_value_hex_digit) simp
  have h2: "hex_value (hex_digit (?n mod 16)) = Some (?n mod 16)"
    by (intro hex_value_hex_digit) simp
  have "?n div 16 * 16 + ?n mod 16 = ?n"
    by simp
  with z h1 h2 show ?thesis
    by (simp add: unicode_escape_def)
qed

lemma parse_chars_escape_char:
  "parse_chars (escape_char c @ t) = cons_char c (parse_chars t)"
proof -
  consider "c = CHR 0x22" | "c = CHR 0x5C" | "c = CHR 0x08" | "c = CHR 0x0C" | "c = CHR 0x0A"
    | "c = CHR 0x0D" | "c = CHR 0x09"
    | "c \<notin> {CHR 0x22, CHR 0x5C, CHR 0x08, CHR 0x0C, CHR 0x0A, CHR 0x0D, CHR 0x09}"
      "(of_char c :: nat) < 32"
    | "c \<notin> {CHR 0x22, CHR 0x5C, CHR 0x08, CHR 0x0C, CHR 0x0A, CHR 0x0D, CHR 0x09}"
      "\<not> (of_char c :: nat) < 32"
    by blast
  then show ?thesis
  proof cases
    case 8
    then show ?thesis
      by (simp add: escape_char_def unicode_escape_low)
  next
    case 9
    then show ?thesis
      by (simp add: escape_char_def)
  qed (simp_all add: escape_char_def unescape_def)
qed

lemma parse_chars_escaped:
  "parse_chars (concat (map escape_char s) @ CHR 0x22 # rest) = Some (s, rest)"
  by (induction s) (simp_all add: parse_chars_escape_char cons_char_def)

lemma parse_chars_quote_string:
  "quote_string s @ rest = CHR 0x22 # t \<Longrightarrow> parse_chars t = Some (s, rest)"
  by (auto simp: quote_string_def parse_chars_escaped)

lemma delimited_simps [simp]:
  "delimited []" "delimited (CHR '','' # s)" "delimited (CHR '']'' # s)" "delimited (CHR ''}'' # s)"
  by (simp_all add: delimited_def is_number_char_def)

lemma set_prop_fresh: "k \<notin> fst ` set acc \<Longrightarrow> set_prop acc k v = acc @ [(k, v)]"
  by (induction acc) auto

lemma number_token:
  assumes "tok \<noteq> []" and "\<forall>c \<in> set tok. is_number_char c" and "delimited rest"
  shows "takeWhile is_number_char (tok @ rest) = tok"
    and "dropWhile is_number_char (tok @ rest) = rest"
proof -
  have r: "takeWhile is_number_char rest = []" "dropWhile is_number_char rest = rest"
    using assms(3) by (cases rest; simp add: delimited_def)+
  show "takeWhile is_number_char (tok @ rest) = tok"
    using assms(2) r by (simp add: takeWhile_append2)
  show "dropWhile is_number_char (tok @ rest) = rest"
    using assms(2) r by (simp add: dropWhile_append2)
qed

lemma parse_value_number:
  assumes "number_text W R x" and "delimited rest"
  shows "parse_value R (Suc k) (W x @ rest) = Some (JNum x, rest)"
proof -
  from assms(1) obtain c tok where w: "W x = c # tok" and c: "is_number_char c"
    and all: "\<forall>c \<in> set (W x). is_number_char c" and r: "R (W x) = Some x"
    by (cases "W x") (auto simp: number_text_def)
  from c have nw: "\<not> is_ws c" "c \<noteq> CHR ''{''" "c \<noteq> CHR ''[''" "c \<noteq> CHR 0x22"
    "c \<noteq> CHR ''t''" "c \<noteq> CHR ''f''" "c \<noteq> CHR ''n''"
    by (auto simp: is_number_char_def is_ws_def)
  have t: "takeWhile is_number_char (c # tok @ rest) = c # tok"
    and d: "dropWhile is_number_char (c # tok @ rest) = rest"
    using number_token [of "c # tok" rest] all assms(2) w by simp_all
  have sk: "skip_ws (c # tok @ rest) = c # tok @ rest"
    using nw(1) by (simp add: skip_ws_start)
  show ?thesis
    using nw r t d w sk by (simp add: Let_def)
qed

lemma parse_elements_join:
  assumes "xs \<noteq> []"
    and "\<And>x k rest. x \<in> set xs \<Longrightarrow> length (T x) \<le> k \<Longrightarrow> delimited rest \<Longrightarrow>
           parse_value R k (T x @ rest) = Some (x, rest)"
    and "length (join_comma (map T xs)) < k"
  shows "parse_elements R k (join_comma (map T xs) @ CHR '']'' # rest) = Some (xs, rest)"
  using assms
proof (induction xs arbitrary: k)
  case Nil
  then show ?case by simp
next
  case (Cons x xs)
  from Cons.prems(3) obtain j where k: "k = Suc j" by (cases k) auto
  have ws: "\<And>s. skip_ws (CHR '']'' # s) = CHR '']'' # s" "\<And>s. skip_ws (CHR '','' # s) = CHR '','' # s"
    by (simp_all add: skip_ws_start is_ws_def)
  show ?case
  proof (cases xs)
    case Nil
    with Cons.prems(3) k have "length (T x) \<le> j" by simp
    then have "parse_value R j (T x @ CHR '']'' # rest) = Some (x, CHR '']'' # rest)"
      by (intro Cons.prems(2)) simp_all
    with Nil k ws show ?thesis by simp
  next
    case (Cons y ys)
    let ?E = "join_comma (map T (y # ys))"
    from Cons Cons.prems(3) k have l: "length (T x) \<le> j" "length ?E < j"
      by simp_all
    from l(1) have v: "parse_value R j (T x @ CHR '','' # ?E @ CHR '']'' # rest) =
        Some (x, CHR '','' # ?E @ CHR '']'' # rest)"
      by (intro Cons.prems(2)) simp_all
    have "parse_elements R j (?E @ CHR '']'' # rest) = Some (y # ys, rest)"
      using Cons.IH [of j] Cons Cons.prems(2) l(2) by simp
    with v Cons k ws show ?thesis by simp
  qed
qed

lemma parse_members_join:
  assumes "kvs \<noteq> []"
    and "\<And>kv k rest. kv \<in> set kvs \<Longrightarrow> length (T (snd kv)) \<le> k \<Longrightarrow> delimited rest \<Longrightarrow>
           parse_value R k (T (snd kv) @ rest) = Some (snd kv, rest)"
    and "distinct (map fst (acc @ kvs))"
    and "length (join_comma (map (\<lambda>kv. quote_string (fst kv) @ '':'' @ T (snd kv)) kvs)) < k"
  shows "parse_members R k acc
           (join_comma (map (\<lambda>kv. quote_string (fst kv) @ '':'' @ T (snd kv)) kvs) @
            CHR ''}'' # rest) = Some (JObj (acc @ kvs), rest)"
  using assms
proof (induction kvs arbitrary: k acc)
  case Nil
  then show ?case by simp
next
  case (Cons kv kvs)
  obtain key v where kv: "kv = (key, v)" by (cases kv)
  from Cons.prems(4) obtain j where k: "k = Suc j" by (cases k) auto
  let ?M = "\<lambda>kvs. join_comma (map (\<lambda>kv. quote_string (fst kv) @ '':'' @ T (snd kv)) kvs)"
  have ws: "\<And>s. skip_ws (CHR ''}'' # s) = CHR ''}'' # s" "\<And>s. skip_ws (CHR '','' # s) = CHR '','' # s"
    "\<And>s. skip_ws (CHR '':'' # s) = CHR '':'' # s" "\<And>s. skip_ws (CHR 0x22 # s) = CHR 0x22 # s"
    by (simp_all add: skip_ws_start is_ws_def)
  have fresh: "set_prop acc key v = acc @ [(key, v)]"
    using Cons.prems(3) kv by (intro set_prop_fresh) auto
  have q: "\<And>t. quote_string key @ t =
      CHR 0x22 # concat (map escape_char key) @ CHR 0x22 # t"
    by (simp add: quote_string_def)
  have pc: "\<And>t. parse_chars (concat (map escape_char key) @ CHR 0x22 # t) = Some (key, t)"
    by (rule parse_chars_escaped)
  show ?case
  proof (cases kvs)
    case Nil
    with Cons.prems(4) k kv have "length (T v) \<le> j" by simp
    then have "parse_value R j (T v @ CHR ''}'' # rest) = Some (v, CHR ''}'' # rest)"
      using Cons.prems(2) [of kv j "CHR ''}'' # rest"] kv by simp
    with Nil k kv ws fresh q pc show ?thesis by simp
  next
    case (Cons kv' kvs')
    from Cons Cons.prems(4) k kv have l: "length (T v) \<le> j" "length (?M (kv' # kvs')) < j"
      by simp_all
    from l(1) have pv: "parse_value R j (T v @ CHR '','' # ?M (kv' # kvs') @ CHR ''}'' # rest) =
        Some (v, CHR '','' # ?M (kv' # kvs') @ CHR ''}'' # rest)"
      using Cons.prems(2) [of kv j "CHR '','' # ?M (kv' # kvs') @ CHR ''}'' # rest"] kv by simp
    have d: "distinct (map fst ((acc @ [(key, v)]) @ kvs))"
      using Cons.prems(3) kv by simp
    have "parse_members R j (acc @ [(key, v)]) (?M (kv' # kvs') @ CHR ''}'' # rest) =
        Some (JObj ((acc @ [(key, v)]) @ kvs), rest)"
      using Cons.IH [of "acc @ [(key, v)]" j] Cons Cons.prems(2) d l(2) by simp
    with pv Cons k kv ws fresh q pc show ?thesis by simp
  qed
qed

lemma stringify_start:
  assumes "json_value v" and "\<forall>x \<in> set (numbers_of v). number_text W R x"
  shows "\<exists>c s. JSON_stringify W v = c # s \<and> \<not> is_ws c \<and> c \<noteq> CHR '']''"
proof (cases v)
  case (JNum x)
  with assms(2) obtain c s where "W x = c # s" "is_number_char c"
    by (cases "W x") (auto simp: number_text_def)
  with JNum show ?thesis by (auto simp: is_number_char_def is_ws_def)
qed (use assms(1) in \<open>auto simp: is_ws_def quote_string_def\<close>)

lemma parse_value_stringify:
  assumes "json_value v" and "\<forall>x \<in> set (numbers_of v). number_text W R x"
    and "length (JSON_stringify W v) \<le> k" and "delimited rest"
  shows "parse_value R k (JSON_stringify W v @ rest) = Some (v, rest)"
  using assms
proof (induction v arbitrary: k rest)
  case JUndefined
  then show ?case by simp
next
  case JNull
  then obtain j where "k = Suc j" by (cases k) auto
  then show ?case by (simp add: skip_ws_start is_ws_def)
next
  case (JBool b)
  then obtain j where "k = Suc j" by (cases k; cases b) auto
  then show ?case by (cases b) (simp_all add: skip_ws_start is_ws_def)
next
  case (JNum x)
  then have n: "number_text W R x" by simp
  then have "W x \<noteq> []" by (simp add: number_text_def)
  with JNum.prems(3) obtain j where "k = Suc j" by (cases k) auto
  with parse_value_number [OF n JNum.prems(4)] show ?case by simp
next
  case (JStr s)
  then obtain j where "k = Suc j" by (cases k) (auto simp: quote_string_def)
  then show ?case
    by (simp add: quote_string_def skip_ws_start is_ws_def parse_chars_escaped)
next
  case (JArr xs)
  from JArr.prems(3) obtain j where k: "k = Suc j" by (cases k) auto
  show ?case
  proof (cases xs)
    case Nil
    with k show ?thesis by (simp add: skip_ws_start is_ws_def)
  next
    case (Cons y ys)
    let ?E = "join_comma (map (JSON_stringify W) xs)"
    have elem: "\<And>x k rest. x \<in> set xs \<Longrightarrow> length (JSON_stringify W x) \<le> k \<Longrightarrow> delimited rest \<Longrightarrow>
        parse_value R k (JSON_stringify W x @ rest) = Some (x, rest)"
      using JArr.IH JArr.prems(1,2) by auto
    from JArr.prems(3) k have l: "length ?E < j" by simp
    from Cons have ne: "xs \<noteq> []" by simp
    have pe: "parse_elements R j (?E @ CHR '']'' # rest) = Some (xs, rest)"
      using parse_elements_join [OF ne elem l] by simp
    from JArr.prems(1,2) Cons have "json_value y" "\<forall>x \<in> set (numbers_of y). number_text W R x"
      by auto
    from stringify_start [OF this] obtain c s where
      y: "JSON_stringify W y = c # s" and c: "\<not> is_ws c" "c \<noteq> CHR '']''"
      by blast
    have "\<exists>t. ?E = c # t"
      using Cons y by (cases ys) simp_all
    then obtain t where E: "?E = c # t" ..
    from pe E have "parse_elements R j (c # t @ CHR '']'' # rest) = Some (xs, rest)"
      by simp
    with k E c show ?thesis
      by (simp add: skip_ws_start is_ws_def)
  qed
next
  case (JObj kvs)
  from JObj.prems(3) obtain j where k: "k = Suc j" by (cases k) auto
  have f: "filter (\<lambda>kv. snd kv \<noteq> JUndefined) kvs = kvs"
    using JObj.prems(1) by (auto simp: filter_id_conv)
  show ?case
  proof (cases kvs)
    case Nil
    with k show ?thesis by (simp add: skip_ws_start is_ws_def)
  next
    case (Cons kv kvs')
    let ?M = "join_comma (map (\<lambda>kv. quote_string (fst kv) @ '':'' @ JSON_stringify W (snd kv)) kvs)"
    have memb: "\<And>kv k rest. kv \<in> set kvs \<Longrightarrow> length (JSON_stringify W (snd kv)) \<le> k \<Longrightarrow>
        delimited rest \<Longrightarrow>
        parse_value R k (JSON_stringify W (snd kv) @ rest) = Some (snd kv, rest)"
    proof -
      fix kv k rest
      assume a: "kv \<in> set kvs" "length (JSON_stringify W (snd kv)) \<le> k" "delimited rest"
      have "snd kv \<in> Basic_BNFs.snds kv" by (cases kv) simp
      moreover from a(1) JObj.prems(1,2) have "json_value (snd kv)"
        "\<forall>x \<in> set (numbers_of (snd kv)). number_text W R x"
        by auto
      ultimately show "parse_value R k (JSON_stringify W (snd kv) @ rest) = Some (snd kv, rest)"
        using JObj.IH [OF a(1)] a(2,3) by blast
    qed
    from JObj.prems(3) k f have l: "length ?M < j" by simp
    from Cons have ne: "kvs \<noteq> []" by simp
    from JObj.prems(1) have d: "distinct (map fst ([] @ kvs))" by simp
    have pm: "parse_members R j [] (?M @ CHR ''}'' # rest) = Some (JObj kvs, rest)"
      using parse_members_join [OF ne memb d l] by simp
    have "\<exists>t. ?M = CHR 0x22 # t"
      using Cons by (cases kvs') (simp_all add: quote_string_def)
    then obtain t where M: "?M = CHR 0x22 # t" ..
    from pm M have "parse_members R j [] (CHR 0x22 # t @ CHR ''}'' # rest) = Some (JObj kvs, rest)"
      by simp
    with k M f show ?thesis
      by (simp add: skip_ws_start is_ws_def)
  qed
qed

lemma JSON_parse_stringify:
  assumes "json_value v" and "\<forall>x \<in> set (numbers_of v). number_text W R x"
  shows "JSON_parse R (JSON_stringify W v) = Inr v"
  using parse_value_stringify [OF assms, of "length (JSON_stringify W v)" "[]"]
  by (simp add: JSON_parse_def skip_ws_def)

subsection \<open>The sample number texts, evaluated\<close>

lemma ex_num_show_values:
  "ex_num_show (1/5) = ''0.2''" "ex_num_show (3/2) = ''1.5''" "ex_num_show (9/10) = ''0.9''"
  by (simp_all add: ex_num_show_def nat_digits.simps digit_char_def)

lemma ex_num_read_values:
  "ex_num_read ''0.2'' = Some (1/5)" "ex_num_read ''1.5'' = Some (3/2)"
  "ex_num_read ''0.9'' = Some (9/10)"
  by (simp_all add: ex_num_read_def is_digit_def digits_value_def)

lemma ex_number_text:
  "number_text ex_num_show ex_num_read (1/5)" "number_text ex_num_show ex_num_read (3/2)"
  "number_text ex_num_show ex_num_read (9/10)"
  by (simp_all add: number_text_def ex_num_show_values ex_num_read_values is_number_char_def)

lemma ex_news2_json_value: "json_value ex_news2"
  by (simp add: ex_news2_def ex_item_def)

lemma ex_news2_numbers: "\<forall>x \<in> set (numbers_of ex_news2). number_text ex_num_show ex_num_read x"
  by (simp add: ex_news2_def ex_item_def ex_number_text)

lemma ex_news2_stringify: "JSON_stringify ex_num_show ex_news2 = ex_news2_text"
  by (simp add: ex_news2_def ex_item_def ex_news2_text_def quoted_def quote_string_def
      escape_char_def ex_num_show_values)

lemma ex_news2_parse: "JSON_parse ex_num_read ex_news2_text = Inr ex_news2"
  using JSON_parse_stringify [OF ex_news2_json_value ex_news2_numbers]
  by (simp add: ex_news2_stringify)

section \<open>The full pipeline\<close>

text \<open>
  C1, as stated, at a concrete run: the news agent answers with a news result,
  the profile agent reports failure, and the run started from the initial state.
  Stage 1 succeeds, stage 2 fails, and the news field after the run is not the
  news result of this run.
\<close>

theorem stage2_failure_news_not_committed:
  "stage (ex_remote (reply_ok ex_news5) reply_failed (reply_ok ex_draft)) ex_parse
     AGENT_IDS_news news_instruction [] =
     (Inr ex_news5, [\<lparr>agent_id = AGENT_IDS_news, message = news_instruction\<rparr>])
   \<and> stage (ex_remote (reply_ok ex_news5) reply_failed (reply_ok ex_draft)) ex_parse
     AGENT_IDS_personality personality_instruction
       [\<lparr>agent_id = AGENT_IDS_news, message = news_instruction\<rparr>] =
     (Inl (Error ''Agent call failed''),
      [\<lparr>agent_id = AGENT_IDS_news, message = news_instruction\<rparr>,
       \<lparr>agent_id = AGENT_IDS_personality, message = personality_instruction\<rparr>])
   \<and> news (result (snd (handleGenerateDraft
        (ex_remote (reply_ok ex_news5) reply_failed (reply_ok ex_draft)) ex_parse ex_stringify
        (ex_world initial_result)))) = JNull
   \<and> ex_news5 \<noteq> JNull"
proof -
  let ?net = "ex_remote (reply_ok ex_news5) reply_failed (reply_ok ex_draft)"
  have s1: "stage ?net ex_parse AGENT_IDS_news news_instruction [] =
     (Inr ex_news5, [\<lparr>agent_id = AGENT_IDS_news, message = news_instruction\<rparr>])"
    by (simp add: ex_stage_ok ex_remote_simps ex_not_strings)
  have s2: "stage ?net ex_parse AGENT_IDS_personality personality_instruction
       [\<lparr>agent_id = AGENT_IDS_news, message = news_instruction\<rparr>] =
     (Inl (Error ''Agent call failed''),
      [\<lparr>agent_id = AGENT_IDS_news, message = news_instruction\<rparr>,
       \<lparr>agent_id = AGENT_IDS_personality, message = personality_instruction\<rparr>])"
    by (simp add: ex_stage_failed ex_remote_simps)
  have "generate_try ?net ex_parse ex_stringify (requests (ex_world initial_result)) =
     (Inl (Error ''Agent call failed''),
      [\<lparr>agent_id = AGENT_IDS_news, message = news_instruction\<rparr>,
       \<lparr>agent_id = AGENT_IDS_personality, message = personality_instruction\<rparr>])"
    using s1 s2 by (simp add: generate_try_stage2_fails ex_world_def)
  then have "news (result (snd (handleGenerateDraft ?net ex_parse ex_stringify
        (ex_world initial_result)))) = JNull"
    by (simp add: handleGenerateDraft_fails ex_world_def initial_result_def)
  with s1 s2 show ?thesis by (simp add: ex_news5_def)
qed

text \<open>
  C1, amended: when stage 1 (news) succeeds and stage 2 (profile) fails, the
  news, profile and draft fields after the run are all those of the state before
  the run (the news result of this run is not committed), loading is false, and
  the error is present: it is the message of what stage 2 threw.
\<close>

theorem stage2_failure_commits_nothing:
  assumes "stage net P AGENT_IDS_news news_instruction (requests w) = (Inr n, r1)"
    and "stage net P AGENT_IDS_personality personality_instruction r1 = (Inl e, r2)"
  shows "news (result (snd (handleGenerateDraft net P S w))) = news (result w)
       \<and> personality (result (snd (handleGenerateDraft net P S w))) = personality (result w)
       \<and> draft (result (snd (handleGenerateDraft net P S w))) = draft (result w)
       \<and> loading (result (snd (handleGenerateDraft net P S w))) = False
       \<and> error (result (snd (handleGenerateDraft net P S w))) =
           Some (err_message e ''Failed to generate draft'')"
  using assms
  by (simp add: handleGenerateDraft_fails [OF generate_try_stage2_fails])

theorem stage2_failure_commits_nothing_witness:
  "stage (ex_remote (reply_ok ex_news2) reply_failed (reply_ok ex_draft)) ex_parse
     AGENT_IDS_news news_instruction [] =
     (Inr ex_news2, [\<lparr>agent_id = AGENT_IDS_news, message = news_instruction\<rparr>])
   \<and> stage (ex_remote (reply_ok ex_news2) reply_failed (reply_ok ex_draft)) ex_parse
     AGENT_IDS_personality personality_instruction
       [\<lparr>agent_id = AGENT_IDS_news, message = news_instruction\<rparr>] =
     (Inl (Error ''Agent call failed''),
      [\<lparr>agent_id = AGENT_IDS_news, message = news_instruction\<rparr>,
       \<lparr>agent_id = AGENT_IDS_personality, message = personality_instruction\<rparr>])
   \<and> result (snd (handleGenerateDraft
        (ex_remote (reply_ok ex_news2) reply_failed (reply_ok ex_draft)) ex_parse ex_stringify
        (ex_world (ex_cached ex_news5)))) =
     (ex_cached ex_news5)\<lparr>error := Some ''Agent call failed''\<rparr>"
proof -
  let ?net = "ex_remote (reply_ok ex_news2) reply_failed (reply_ok ex_draft)"
  have s1: "stage ?net ex_parse AGENT_IDS_news news_instruction
       (requests (ex_world (ex_cached ex_news5))) =
     (Inr ex_news2, [\<lparr>agent_id = AGENT_IDS_news, message = news_instruction\<rparr>])"
    by (simp add: ex_stage_ok ex_remote_simps ex_not_strings ex_world_def)
  have s2: "stage ?net ex_parse AGENT_IDS_personality personality_instruction
       [\<lparr>agent_id = AGENT_IDS_news, message = news_instruction\<rparr>] =
     (Inl (Error ''Agent call failed''),
      [\<lparr>agent_id = AGENT_IDS_news, message = news_instruction\<rparr>,
       \<lparr>agent_id = AGENT_IDS_personality, message = personality_instruction\<rparr>])"
    by (simp add: ex_stage_failed ex_remote_simps)
  from stage2_failure_commits_nothing [OF s1 s2, of ex_stringify] s1 s2
  show ?thesis
    by (simp add: ex_world_def ex_cached_def)
qed

text \<open>
  C2, as stated, at a concrete run: the profile agent answers with the payload
  \<^verbatim>\<open>false\<close> and the draft agent with the payload \<^verbatim>\<open>null\<close>. All three stages
  succeed and the run ends without error, but the profile and draft fields after
  the run are falsy: they fail the handlers' own presence test.
\<close>

theorem full_pipeline_falsy_profile_and_draft:
  "stage (ex_remote (reply_ok ex_news5) (reply_ok (JBool False)) (reply_ok JNull)) ex_parse
     AGENT_IDS_news news_instruction [] =
     (Inr ex_news5, [\<lparr>agent_id = AGENT_IDS_news, message = news_instruction\<rparr>])
   \<and> stage (ex_remote (reply_ok ex_news5) (reply_ok (JBool False)) (reply_ok JNull)) ex_parse
     AGENT_IDS_personality personality_instruction
       [\<lparr>agent_id = AGENT_IDS_news, message = news_instruction\<rparr>] =
     (Inr (JBool False),
      [\<lparr>agent_id = AGENT_IDS_news, message = news_instruction\<rparr>,
       \<lparr>agent_id = AGENT_IDS_personality, message = personality_instruction\<rparr>])
   \<and> fst (stage (ex_remote (reply_ok ex_news5) (reply_ok (JBool False)) (reply_ok JNull)) ex_parse
     AGENT_IDS_draft
     (draft_instruction ''undefined''
        (ex_stringify (JArr [ex_item ''a'' (1/5), ex_item ''b'' (3/2), ex_item ''c'' (1/2)])))
       [\<lparr>agent_id = AGENT_IDS_news, message = news_instruction\<rparr>,
        \<lparr>agent_id = AGENT_IDS_personality, message = personality_instruction\<rparr>]) =
     Inr JNull
   \<and> result (snd (handleGenerateDraft
        (ex_remote (reply_ok ex_news5) (reply_ok (JBool False)) (reply_ok JNull))
        ex_parse ex_stringify (ex_world initial_result))) =
     \<lparr>news = ex_news5, personality = JBool False, draft = JNull,
      loading = False, error = None\<rparr>
   \<and> falsy (JBool False) \<and> falsy JNull"
proof -
  let ?net = "ex_remote (reply_ok ex_news5) (reply_ok (JBool False)) (reply_ok JNull)"
  let ?r1 = "[\<lparr>agent_id = AGENT_IDS_news, message = news_instruction\<rparr>]"
  let ?r2 = "[\<lparr>agent_id = AGENT_IDS_news, message = news_instruction\<rparr>,
             \<lparr>agent_id = AGENT_IDS_personality, message = personality_instruction\<rparr>]"
  have s1: "stage ?net ex_parse AGENT_IDS_news news_instruction [] = (Inr ex_news5, ?r1)"
    by (simp add: ex_stage_ok ex_remote_simps ex_not_strings)
  have s2: "stage ?net ex_parse AGENT_IDS_personality personality_instruction ?r1 =
       (Inr (JBool False), ?r2)"
    by (simp add: ex_stage_ok ex_remote_simps)
  have s3: "stage ?net ex_parse AGENT_IDS_draft m ?r2 =
       (Inr JNull, ?r2 @ [\<lparr>agent_id = AGENT_IDS_draft, message = m\<rparr>])" for m
    by (simp add: ex_stage_ok ex_remote_simps)
  have pc: "personalityContext ex_stringify (JBool False) = Inr ''undefined''"
    by (simp add: personalityContext_def interpolate_json_def)
  have s1': "stage ?net ex_parse AGENT_IDS_news news_instruction
       (requests (ex_world initial_result)) = (Inr ex_news5, ?r1)"
    using s1 by (simp add: ex_world_def)
  from full_state_after_success [OF s1' s2 ex_newsContext5 pc s3] s1 s2 s3
  show ?thesis by simp
qed

text \<open>
  C2, amended: when all three stages succeed (each call returns and decodes, and
  the two contexts of the draft stage are built), the state after the run has
  loading false, the error null, and the news, profile and draft fields hold
  exactly the decoded results of this run. The news result is then present, and
  the profile result is neither \<^verbatim>\<open>null\<close> nor \<^verbatim>\<open>undefined\<close>; nothing more is
  promised of the profile and the draft, whose decoded payloads are committed
  as they are.
\<close>

theorem full_pipeline_commits_results:
  assumes "stage net P AGENT_IDS_news news_instruction (requests w) = (Inr n, r1)"
    and "stage net P AGENT_IDS_personality personality_instruction r1 = (Inr p, r2)"
    and "newsContext S n = Inr nc"
    and "personalityContext S p = Inr pc"
    and "stage net P AGENT_IDS_draft (draft_instruction pc nc) r2 = (Inr d, r3)"
  shows "result (snd (handleGenerateDraft net P S w)) =
           \<lparr>news = n, personality = p, draft = d, loading = False, error = None\<rparr>
       \<and> \<not> falsy n \<and> p \<noteq> JNull \<and> p \<noteq> JUndefined"
proof -
  have "\<not> falsy n"
    using assms(3) by (cases n) (simp_all add: newsContext_def)
  moreover have "p \<noteq> JNull" "p \<noteq> JUndefined"
    using assms(4) by (auto simp: personalityContext_def)
  ultimately show ?thesis
    using full_state_after_success [OF assms] by simp
qed

theorem full_pipeline_commits_results_witness:
  "result (snd (handleGenerateDraft
      (ex_remote (reply_ok ex_news5) (reply_ok ex_profile) (reply_ok ex_draft))
      ex_parse ex_stringify (ex_world (ex_cached ex_news2)))) =
     \<lparr>news = ex_news5, personality = ex_profile, draft = ex_draft,
      loading = False, error = None\<rparr>
   \<and> \<not> falsy ex_news5 \<and> ex_profile \<noteq> JNull \<and> ex_profile \<noteq> JUndefined"
proof -
  let ?net = "ex_remote (reply_ok ex_news5) (reply_ok ex_profile) (reply_ok ex_draft)"
  let ?r1 = "[\<lparr>agent_id = AGENT_IDS_news, message = news_instruction\<rparr>]"
  let ?r2 = "?r1 @ [\<lparr>agent_id = AGENT_IDS_personality, message = personality_instruction\<rparr>]"
  have s1: "stage ?net ex_parse AGENT_IDS_news news_instruction
       (requests (ex_world (ex_cached ex_news2))) = (Inr ex_news5, ?r1)"
    by (simp add: ex_stage_ok ex_remote_simps ex_not_strings ex_world_def)
  have s2: "stage ?net ex_parse AGENT_IDS_personality personality_instruction ?r1 =
       (Inr ex_profile, ?r2)"
    by (simp add: ex_stage_ok ex_remote_simps ex_not_strings)
  have s3: "stage ?net ex_parse AGENT_IDS_draft m ?r2 =
       (Inr ex_draft, ?r2 @ [\<lparr>agent_id = AGENT_IDS_draft, message = m\<rparr>])" for m
    by (simp add: ex_stage_ok ex_remote_simps ex_not_strings)
  from full_pipeline_commits_results [OF s1 s2 ex_newsContext5 ex_personalityContext s3]
  show ?thesis by simp
qed

text \<open>
  C6: when stage 1 (news) fails, the news, profile and draft fields after the
  run are those of the state before the run.
\<close>

theorem stage1_failure_commits_nothing:
  assumes "stage net P AGENT_IDS_news news_instruction (requests w) = (Inl e, r1)"
  shows "news (result (snd (handleGenerateDraft net P S w))) = news (result w)
       \<and> personality (result (snd (handleGenerateDraft net P S w))) = personality (result w)
       \<and> draft (result (snd (handleGenerateDraft net P S w))) = draft (result w)"
  using assms
  by (simp add: handleGenerateDraft_fails [OF generate_try_stage1_fails])

theorem stage1_failure_commits_nothing_witness:
  "stage (ex_remote reply_failed (reply_ok ex_profile) (reply_ok ex_draft)) ex_parse
     AGENT_IDS_news news_instruction [] =
     (Inl (Error ''Agent call failed''),
      [\<lparr>agent_id = AGENT_IDS_news, message = news_instruction\<rparr>])
   \<and> news (result (snd (handleGenerateDraft
        (ex_remote reply_failed (reply_ok ex_profile) (reply_ok ex_draft))
        ex_parse ex_stringify (ex_world (ex_cached ex_news5))))) = ex_news5
   \<and> personality (result (snd (handleGenerateDraft
        (ex_remote reply_failed (reply_ok ex_profile) (reply_ok ex_draft))
        ex_parse ex_stringify (ex_world (ex_cached ex_news5))))) = ex_profile
   \<and> draft (result (snd (handleGenerateDraft
        (ex_remote reply_failed (reply_ok ex_profile) (reply_ok ex_draft))
        ex_parse ex_stringify (ex_world (ex_cached ex_news5))))) =
       JObj [(''draft_message'', JStr ''old'')]"
proof -
  let ?net = "ex_remote reply_failed (reply_ok ex_profile) (reply_ok ex_draft)"
  have s1: "stage ?net ex_parse AGENT_IDS_news news_instruction
       (requests (ex_world (ex_cached ex_news5))) =
     (Inl (Error ''Agent call failed''),
      [\<lparr>agent_id = AGENT_IDS_news, message = news_instruction\<rparr>])"
    by (simp add: ex_stage_failed ex_remote_simps ex_world_def)
  from stage1_failure_commits_nothing [OF s1, of ex_stringify] s1
  show ?thesis by (simp add: ex_world_def ex_cached_def)
qed

section \<open>The regenerate path\<close>

text \<open>
  C3, as stated, at the initial state, where neither news nor profile is cached:
  the promise of the regenerate handler is fulfilled, not rejected, and no error
  is recorded in the state. Nothing signals a precondition failure.
\<close>

theorem regenerate_without_cache_raises_nothing:
  "fst (handleRegenerateDraft
         (ex_remote (reply_ok ex_news5) (reply_ok ex_profile) (reply_ok ex_draft))
         ex_parse ex_stringify (ex_world initial_result)) = Inr ()
   \<and> error (result (snd (handleRegenerateDraft
         (ex_remote (reply_ok ex_news5) (reply_ok ex_profile) (reply_ok ex_draft))
         ex_parse ex_stringify (ex_world initial_result)))) = None"
  by (simp add: handleRegenerateDraft_def ex_world_def initial_result_def)

text \<open>
  C3, amended: whenever the regenerate operation is invoked on a state with no
  cached news result or no cached profile result, it returns at once as a
  no-op: nothing is raised, the state (including the error) is left as it was,
  and no remote agent call is made.
\<close>

theorem regenerate_without_cache_is_noop:
  "falsy (news (result w)) \<or> falsy (personality (result w)) \<Longrightarrow>
   handleRegenerateDraft net P S w = (Inr (), w)"
  by (simp add: handleRegenerateDraft_def)

theorem regenerate_without_cache_is_noop_witness:
  "falsy (personality (result (ex_world ((ex_cached ex_news5)\<lparr>personality := JNull\<rparr>))))
   \<and> handleRegenerateDraft
        (ex_remote (reply_ok ex_news5) (reply_ok ex_profile) (reply_ok ex_draft))
        ex_parse ex_stringify (ex_world ((ex_cached ex_news5)\<lparr>personality := JNull\<rparr>)) =
      (Inr (), ex_world ((ex_cached ex_news5)\<lparr>personality := JNull\<rparr>))
   \<and> requests (ex_world ((ex_cached ex_news5)\<lparr>personality := JNull\<rparr>)) = []"
proof -
  have f: "falsy (personality (result (ex_world ((ex_cached ex_news5)\<lparr>personality := JNull\<rparr>))))"
    by (simp add: ex_world_def ex_cached_def)
  then have "falsy (news (result (ex_world ((ex_cached ex_news5)\<lparr>personality := JNull\<rparr>))))
      \<or> falsy (personality (result (ex_world ((ex_cached ex_news5)\<lparr>personality := JNull\<rparr>))))"
    by simp
  from regenerate_without_cache_is_noop [OF this] f
  show ?thesis by (simp add: ex_world_def)
qed

text \<open>
  C4: the regenerate operation never changes the news and profile fields; if its
  \<^verbatim>\<open>try\<close> block fails the draft field keeps its value, and if the draft field
  has changed, the \<^verbatim>\<open>try\<close> block succeeded and the new draft is its result.
\<close>

theorem regenerate_frame:
  "news (result (snd (handleRegenerateDraft net P S w))) = news (result w)
   \<and> personality (result (snd (handleRegenerateDraft net P S w))) = personality (result w)
   \<and> (fst (regenerate_try net P S (result w) (requests w)) = Inl e \<longrightarrow>
        draft (result (snd (handleRegenerateDraft net P S w))) = draft (result w))
   \<and> (draft (result (snd (handleRegenerateDraft net P S w))) \<noteq> draft (result w) \<longrightarrow>
        fst (regenerate_try net P S (result w) (requests w)) =
          Inr (draft (result (snd (handleRegenerateDraft net P S w)))))"
proof (cases "falsy (news (result w)) \<or> falsy (personality (result w))")
  case True
  then show ?thesis by (simp add: handleRegenerateDraft_guard)
next
  case False
  obtain r reqs' where g: "regenerate_try net P S (result w) (requests w) = (r, reqs')"
    by (cases "regenerate_try net P S (result w) (requests w)")
  show ?thesis
  proof (cases r)
    case (Inl e')
    with g False show ?thesis by (simp add: handleRegenerateDraft_fails)
  next
    case (Inr d)
    with g False show ?thesis by (simp add: handleRegenerateDraft_succeeds)
  qed
qed

theorem regenerate_frame_witness:
  "fst (regenerate_try (ex_remote (reply_ok ex_news2) (reply_ok ex_profile) reply_failed)
         ex_parse ex_stringify (ex_cached ex_news5) []) = Inl (Error ''Agent call failed'')
   \<and> result (snd (handleRegenerateDraft
         (ex_remote (reply_ok ex_news2) (reply_ok ex_profile) reply_failed)
         ex_parse ex_stringify (ex_world (ex_cached ex_news5)))) =
       (ex_cached ex_news5)\<lparr>error := Some ''Agent call failed''\<rparr>
   \<and> fst (regenerate_try (ex_remote (reply_ok ex_news2) (reply_ok ex_profile) (reply_ok ex_draft))
         ex_parse ex_stringify (ex_cached ex_news5) []) = Inr ex_draft
   \<and> result (snd (handleRegenerateDraft
         (ex_remote (reply_ok ex_news2) (reply_ok ex_profile) (reply_ok ex_draft))
         ex_parse ex_stringify (ex_world (ex_cached ex_news5)))) =
       (ex_cached ex_news5)\<lparr>draft := ex_draft\<rparr>
   \<and> ex_draft \<noteq> draft (ex_cached ex_news5)"
proof -
  let ?bad = "ex_remote (reply_ok ex_news2) (reply_ok ex_profile) reply_failed"
  let ?good = "ex_remote (reply_ok ex_news2) (reply_ok ex_profile) (reply_ok ex_draft)"
  let ?w = "ex_world (ex_cached ex_news5)"
  have c: "newsContext ex_stringify (news (ex_cached ex_news5)) =
             Inr (ex_stringify (JArr [ex_item ''a'' (1/5), ex_item ''b'' (3/2), ex_item ''c'' (1/2)]))"
     "personalityContext ex_stringify (personality (ex_cached ex_news5)) =
             Inr (ex_stringify (JObj [(''tone'', JStr ''friendly'')]))"
    by (simp_all add: ex_cached_def ex_newsContext5 ex_personalityContext)
  have bad: "fst (regenerate_try ?bad ex_parse ex_stringify (result ?w) (requests ?w)) =
               Inl (Error ''Agent call failed'')"
    by (simp add: ex_world_def regenerate_try_eq [OF c] ex_stage_failed ex_remote_simps)
  have good: "fst (regenerate_try ?good ex_parse ex_stringify (result ?w) (requests ?w)) =
               Inr ex_draft"
    by (simp add: ex_world_def regenerate_try_eq [OF c] ex_stage_ok ex_remote_simps
        ex_not_strings)
  have d: "ex_draft \<noteq> draft (ex_cached ex_news5)"
    by (simp add: ex_draft_def ex_cached_def)
  have nf: "\<not> falsy (news (result ?w))" "\<not> falsy (personality (result ?w))"
    by (simp_all add: ex_world_def ex_cached_def ex_not_falsy)
  obtain rb where tb: "regenerate_try ?bad ex_parse ex_stringify (result ?w) (requests ?w) =
      (Inl (Error ''Agent call failed''), rb)"
    using bad by (cases "regenerate_try ?bad ex_parse ex_stringify (result ?w) (requests ?w)") auto
  obtain rg where tg: "regenerate_try ?good ex_parse ex_stringify (result ?w) (requests ?w) =
      (Inr ex_draft, rg)"
    using good by (cases "regenerate_try ?good ex_parse ex_stringify (result ?w) (requests ?w)") auto
  have rb: "result (snd (handleRegenerateDraft ?bad ex_parse ex_stringify ?w)) =
       (ex_cached ex_news5)\<lparr>error := Some ''Agent call failed''\<rparr>"
    by (simp add: handleRegenerateDraft_fails [OF nf tb]) (simp add: ex_world_def ex_cached_def)
  have rg: "result (snd (handleRegenerateDraft ?good ex_parse ex_stringify ?w)) =
       (ex_cached ex_news5)\<lparr>draft := ex_draft\<rparr>"
    by (simp add: handleRegenerateDraft_succeeds [OF nf tg]) (simp add: ex_world_def ex_cached_def)
  from regenerate_frame [of ?bad ex_parse ex_stringify ?w "Error ''Agent call failed''"]
    regenerate_frame [of ?good ex_parse ex_stringify ?w] bad good d rb rg
  show ?thesis by (simp add: ex_world_def)
qed

section \<open>The loading flag and the error\<close>

text \<open>
  C5: in every state shown by any sequence of full-pipeline and regenerate runs
  from the initial state, whatever the outcome of each run, and at every
  intermediate state of such a run, if loading is true then the error is null.
\<close>

theorem loading_clears_error:
  assumes "s \<in> set (initial_result # renders (run_operations P S ops initial_world))"
    and "loading s"
  shows "error s = None"
proof -
  have "\<forall>s \<in> set (renders w). loading s \<longrightarrow> error s = None \<Longrightarrow>
        \<forall>s \<in> set (renders (run_operations P S ops w)). loading s \<longrightarrow> error s = None" for w
  proof (induction ops arbitrary: w)
    case Nil
    then show ?case by simp
  next
    case (Cons op ops)
    have "\<forall>s \<in> set (renders (run_operation P S op w)). loading s \<longrightarrow> error s = None"
    proof (cases op)
      case (Generate net)
      from generate_renders [of net P S w] Cons.prems show ?thesis
        by (auto simp: Generate)
    next
      case (Regenerate net)
      from regenerate_renders [of net P S w] Cons.prems show ?thesis
        by (auto simp: Regenerate)
    qed
    from Cons.IH [OF this] show ?case by simp
  qed
  from this [of initial_world] assms show ?thesis
    by (auto simp: initial_world_def initial_result_def)
qed

theorem loading_clears_error_witness:
  "(ex_cached ex_news5)\<lparr>loading := True\<rparr> \<in> set (initial_result # renders (run_operations
       ex_parse ex_stringify
       [Generate (ex_remote (reply_ok ex_news5) (reply_ok ex_profile)
                   (reply_ok (JObj [(''draft_message'', JStr ''old'')]))),
        Regenerate (ex_remote (reply_ok ex_news5) (reply_ok ex_profile) reply_failed)]
       initial_world))
   \<and> loading ((ex_cached ex_news5)\<lparr>loading := True\<rparr>)
   \<and> error ((ex_cached ex_news5)\<lparr>loading := True\<rparr>) = None"
proof -
  let ?ok = "ex_remote (reply_ok ex_news5) (reply_ok ex_profile)
               (reply_ok (JObj [(''draft_message'', JStr ''old'')]))"
  let ?bad = "ex_remote (reply_ok ex_news5) (reply_ok ex_profile) reply_failed"
  let ?r1 = "[\<lparr>agent_id = AGENT_IDS_news, message = news_instruction\<rparr>]"
  let ?r2 = "[\<lparr>agent_id = AGENT_IDS_news, message = news_instruction\<rparr>,
             \<lparr>agent_id = AGENT_IDS_personality, message = personality_instruction\<rparr>]"
  let ?w1 = "snd (handleGenerateDraft ?ok ex_parse ex_stringify initial_world)"
  have s1: "stage ?ok ex_parse AGENT_IDS_news news_instruction (requests initial_world) =
       (Inr ex_news5, ?r1)"
    by (simp add: ex_stage_ok ex_remote_simps ex_not_strings initial_world_def)
  have s2: "stage ?ok ex_parse AGENT_IDS_personality personality_instruction ?r1 =
       (Inr ex_profile, ?r2)"
    by (simp add: ex_stage_ok ex_remote_simps ex_not_strings)
  have s3: "stage ?ok ex_parse AGENT_IDS_draft m ?r2 =
       (Inr (JObj [(''draft_message'', JStr ''old'')]),
        ?r2 @ [\<lparr>agent_id = AGENT_IDS_draft, message = m\<rparr>])" for m
    by (simp add: ex_stage_ok ex_remote_simps)
  from full_state_after_success [OF s1 s2 ex_newsContext5 ex_personalityContext s3]
  have r1: "result ?w1 = ex_cached ex_news5"
    by (simp add: ex_cached_def)
  have nf: "\<not> falsy (news (result ?w1))" "\<not> falsy (personality (result ?w1))"
    by (simp_all add: r1 ex_cached_def ex_not_falsy)
  from regenerate_renders_cached [OF nf, of ?bad ex_parse ex_stringify]
  have "(ex_cached ex_news5)\<lparr>loading := True\<rparr> \<in>
          set (renders (snd (handleRegenerateDraft ?bad ex_parse ex_stringify ?w1)))"
    by (auto simp: r1 ex_cached_def)
  then have m: "(ex_cached ex_news5)\<lparr>loading := True\<rparr> \<in> set (initial_result #
      renders (run_operations ex_parse ex_stringify [Generate ?ok, Regenerate ?bad] initial_world))"
    by simp
  have l: "loading ((ex_cached ex_news5)\<lparr>loading := True\<rparr>)" by simp
  from loading_clears_error [OF m l] m l show ?thesis by simp
qed

section \<open>The context of the draft stage\<close>

text \<open>
  C7: for a news result whose item list has at least 3 elements, the news
  context of the draft stage is the \<^verbatim>\<open>JSON.stringify\<close> text of exactly the first
  three items, in the order of the list, and the request sent to the draft
  agent carries that context, in the full pipeline and in the regenerate path.
\<close>

theorem draft_context_first_three:
  assumes "get_prop n ''news_summary'' = Inr (JArr items)" and "3 \<le> length items"
    and "stage net P AGENT_IDS_news news_instruction (requests w) = (Inr n, r1)"
    and "stage net P AGENT_IDS_personality personality_instruction r1 = (Inr p, r2)"
    and "personalityContext S p = Inr pc"
    and "news (result w') = n" and "\<not> falsy (personality (result w'))"
    and "personalityContext S (personality (result w')) = Inr pc'"
  shows "newsContext S n = Inr (S (JArr [items ! 0, items ! 1, items ! 2]))
       \<and> requests (snd (handleGenerateDraft net P S w)) =
           r2 @ [\<lparr>agent_id = AGENT_IDS_draft,
                  message = draft_instruction pc (S (JArr [items ! 0, items ! 1, items ! 2]))\<rparr>]
       \<and> requests (snd (handleRegenerateDraft net' P' S w')) =
           requests w' @ [\<lparr>agent_id = AGENT_IDS_draft,
                  message = regenerate_instruction pc'
                    (S (JArr [items ! 0, items ! 1, items ! 2]))\<rparr>]"
proof -
  have nc: "newsContext S n = Inr (S (JArr [items ! 0, items ! 1, items ! 2]))"
    using newsContext_array [OF assms(1), of S] take_3 [OF assms(2)] by simp
  from get_prop_array_object [OF assms(1)] have nf: "\<not> falsy (news (result w'))"
    using assms(6) by auto
  from nc have nc': "newsContext S (news (result w')) =
      Inr (S (JArr [items ! 0, items ! 1, items ! 2]))"
    using assms(6) by simp
  show ?thesis
    using nc generate_draft_request [OF assms(3,4) nc assms(5)]
      regenerate_draft_request [OF nf assms(7) nc' assms(8), of net' P']
    by simp
qed

theorem draft_context_first_three_witness:
  "newsContext ex_stringify ex_news5 =
     Inr (ex_stringify (JArr [ex_item ''a'' (1/5), ex_item ''b'' (3/2), ex_item ''c'' (1/2)]))
   \<and> requests (snd (handleGenerateDraft
        (ex_remote (reply_ok ex_news5) (reply_ok ex_profile) (reply_ok ex_draft))
        ex_parse ex_stringify (ex_world initial_result))) =
     [\<lparr>agent_id = AGENT_IDS_news, message = news_instruction\<rparr>,
      \<lparr>agent_id = AGENT_IDS_personality, message = personality_instruction\<rparr>,
      \<lparr>agent_id = AGENT_IDS_draft,
       message = draft_instruction (ex_stringify (JObj [(''tone'', JStr ''friendly'')]))
         (ex_stringify (JArr [ex_item ''a'' (1/5), ex_item ''b'' (3/2), ex_item ''c'' (1/2)]))\<rparr>]
   \<and> requests (snd (handleRegenerateDraft
        (ex_remote (reply_ok ex_news2) (reply_ok ex_profile) (reply_ok ex_draft))
        ex_parse ex_stringify (ex_world (ex_cached ex_news5)))) =
     [\<lparr>agent_id = AGENT_IDS_draft,
       message = regenerate_instruction (ex_stringify (JObj [(''tone'', JStr ''friendly'')]))
         (ex_stringify (JArr [ex_item ''a'' (1/5), ex_item ''b'' (3/2), ex_item ''c'' (1/2)]))\<rparr>]"
proof -
  let ?net = "ex_remote (reply_ok ex_news5) (reply_ok ex_profile) (reply_ok ex_draft)"
  let ?r1 = "[\<lparr>agent_id = AGENT_IDS_news, message = news_instruction\<rparr>]"
  let ?r2 = "[\<lparr>agent_id = AGENT_IDS_news, message = news_instruction\<rparr>,
             \<lparr>agent_id = AGENT_IDS_personality, message = personality_instruction\<rparr>]"
  have len: "3 \<le> length [ex_item ''a'' (1/5), ex_item ''b'' (3/2), ex_item ''c'' (1/2),
                            ex_item ''d'' (9/10), ex_item ''e'' 1]"
    by simp
  have s1: "stage ?net ex_parse AGENT_IDS_news news_instruction
       (requests (ex_world initial_result)) = (Inr ex_news5, ?r1)"
    by (simp add: ex_stage_ok ex_remote_simps ex_not_strings ex_world_def)
  have s2: "stage ?net ex_parse AGENT_IDS_personality personality_instruction ?r1 =
       (Inr ex_profile, ?r2)"
    by (simp add: ex_stage_ok ex_remote_simps ex_not_strings)
  have c1: "news (result (ex_world (ex_cached ex_news5))) = ex_news5"
    by (simp add: ex_world_def ex_cached_def)
  have c2: "\<not> falsy (personality (result (ex_world (ex_cached ex_news5))))"
    by (simp add: ex_world_def ex_cached_def ex_not_falsy)
  have c3: "personalityContext ex_stringify (personality (result (ex_world (ex_cached ex_news5)))) =
      Inr (ex_stringify (JObj [(''tone'', JStr ''friendly'')]))"
    by (simp add: ex_world_def ex_cached_def ex_personalityContext)
  from draft_context_first_three [OF ex_news5_summary len s1 s2 ex_personalityContext c1 c2 c3,
      of "ex_remote (reply_ok ex_news2) (reply_ok ex_profile) (reply_ok ex_draft)" ex_parse]
  show ?thesis by (simp add: ex_world_def)
qed

text \<open>
  C10: for a news result whose item list has fewer than 3 elements (none
  included), building the news context of the draft stage does not fail: the
  context is the \<^verbatim>\<open>JSON.stringify\<close> text of the whole list, in order, and the
  request to the draft agent is sent with it, in the full pipeline and in the
  regenerate path.
\<close>

theorem draft_context_short_list:
  assumes "get_prop n ''news_summary'' = Inr (JArr items)" and "length items < 3"
    and "stage net P AGENT_IDS_news news_instruction (requests w) = (Inr n, r1)"
    and "stage net P AGENT_IDS_personality personality_instruction r1 = (Inr p, r2)"
    and "personalityContext S p = Inr pc"
    and "news (result w') = n" and "\<not> falsy (personality (result w'))"
    and "personalityContext S (personality (result w')) = Inr pc'"
  shows "newsContext S n = Inr (S (JArr items))
       \<and> requests (snd (handleGenerateDraft net P S w)) =
           r2 @ [\<lparr>agent_id = AGENT_IDS_draft,
                  message = draft_instruction pc (S (JArr items))\<rparr>]
       \<and> requests (snd (handleRegenerateDraft net' P' S w')) =
           requests w' @ [\<lparr>agent_id = AGENT_IDS_draft,
                  message = regenerate_instruction pc' (S (JArr items))\<rparr>]"
proof -
  have nc: "newsContext S n = Inr (S (JArr items))"
    using newsContext_array [OF assms(1), of S] assms(2) by simp
  from get_prop_array_object [OF assms(1)] have nf: "\<not> falsy (news (result w'))"
    using assms(6) by auto
  from nc have nc': "newsContext S (news (result w')) = Inr (S (JArr items))"
    using assms(6) by simp
  show ?thesis
    using nc generate_draft_request [OF assms(3,4) nc assms(5)]
      regenerate_draft_request [OF nf assms(7) nc' assms(8), of net' P']
    by simp
qed

theorem draft_context_short_list_witness:
  "newsContext ex_stringify ex_news2 =
     Inr (ex_stringify (JArr [ex_item ''a'' (1/5), ex_item ''b'' (3/2)]))
   \<and> requests (snd (handleGenerateDraft
        (ex_remote (reply_ok ex_news2) (reply_ok ex_profile) (reply_ok ex_draft))
        ex_parse ex_stringify (ex_world initial_result))) =
     [\<lparr>agent_id = AGENT_IDS_news, message = news_instruction\<rparr>,
      \<lparr>agent_id = AGENT_IDS_personality, message = personality_instruction\<rparr>,
      \<lparr>agent_id = AGENT_IDS_draft,
       message = draft_instruction (ex_stringify (JObj [(''tone'', JStr ''friendly'')]))
         (ex_stringify (JArr [ex_item ''a'' (1/5), ex_item ''b'' (3/2)]))\<rparr>]
   \<and> requests (snd (handleRegenerateDraft
        (ex_remote (reply_ok ex_news5) (reply_ok ex_profile) (reply_ok ex_draft))
        ex_parse ex_stringify (ex_world (ex_cached ex_news2)))) =
     [\<lparr>agent_id = AGENT_IDS_draft,
       message = regenerate_instruction (ex_stringify (JObj [(''tone'', JStr ''friendly'')]))
         (ex_stringify (JArr [ex_item ''a'' (1/5), ex_item ''b'' (3/2)]))\<rparr>]"
proof -
  let ?net = "ex_remote (reply_ok ex_news2) (reply_ok ex_profile) (reply_ok ex_draft)"
  let ?r1 = "[\<lparr>agent_id = AGENT_IDS_news, message = news_instruction\<rparr>]"
  let ?r2 = "[\<lparr>agent_id = AGENT_IDS_news, message = news_instruction\<rparr>,
             \<lparr>agent_id = AGENT_IDS_personality, message = personality_instruction\<rparr>]"
  have len: "length [ex_item ''a'' (1/5), ex_item ''b'' (3/2)] < 3"
    by simp
  have s1: "stage ?net ex_parse AGENT_IDS_news news_instruction
       (requests (ex_world initial_result)) = (Inr ex_news2, ?r1)"
    by (simp add: ex_stage_ok ex_remote_simps ex_not_strings ex_world_def)
  have s2: "stage ?net ex_parse AGENT_IDS_personality personality_instruction ?r1 =
       (Inr ex_profile, ?r2)"
    by (simp add: ex_stage_ok ex_remote_simps ex_not_strings)
  have c1: "news (result (ex_world (ex_cached ex_news2))) = ex_news2"
    by (simp add: ex_world_def ex_cached_def)
  have c2: "\<not> falsy (personality (result (ex_world (ex_cached ex_news2))))"
    by (simp add: ex_world_def ex_cached_def ex_not_falsy)
  have c3: "personalityContext ex_stringify (personality (result (ex_world (ex_cached ex_news2)))) =
      Inr (ex_stringify (JObj [(''tone'', JStr ''friendly'')]))"
    by (simp add: ex_world_def ex_cached_def ex_personalityContext)
  from draft_context_short_list [OF ex_news2_summary len s1 s2 ex_personalityContext c1 c2 c3,
      of "ex_remote (reply_ok ex_news5) (reply_ok ex_profile) (reply_ok ex_draft)" ex_parse]
  show ?thesis by (simp add: ex_world_def)
qed

section \<open>Decoding\<close>

text \<open>
  C8: for every payload value \<open>v\<close> that \<^verbatim>\<open>response.json()\<close> can produce and that
  is not itself a string (the stage payloads are objects), decoding a reply that
  carries \<open>v\<close> as a structured value and decoding a reply that carries the
  \<^verbatim>\<open>JSON.stringify\<close> text of \<open>v\<close> give the same result, which is \<open>v\<close>. Only the
  text of the numbers in \<open>v\<close> is assumed to be read back by the platform.
\<close>

theorem decode_both_representations:
  assumes "json_value v" and "\<not> typeof_string v"
    and "\<forall>x \<in> set (numbers_of v). number_text W R x"
  shows "decode_payload (JSON_parse R) (JStr (JSON_stringify W v)) =
           decode_payload (JSON_parse R) v
       \<and> decode_payload (JSON_parse R) v = Inr v"
  using JSON_parse_stringify [OF assms(1,3)] assms(2)
  by (simp add: decode_payload_structured) (simp add: decode_payload_def)

theorem decode_both_representations_witness:
  "json_value ex_news2 \<and> \<not> typeof_string ex_news2
   \<and> number_text ex_num_show ex_num_read (1/5)
   \<and> number_text ex_num_show ex_num_read (3/2)
   \<and> number_text ex_num_show ex_num_read (9/10)
   \<and> JSON_stringify ex_num_show ex_news2 = ex_news2_text
   \<and> decode_payload (JSON_parse ex_num_read) (JStr ex_news2_text) = Inr ex_news2
   \<and> decode_payload (JSON_parse ex_num_read) ex_news2 = Inr ex_news2"
proof -
  have t: "\<not> typeof_string ex_news2"
    by (simp add: ex_not_strings)
  from decode_both_representations [OF ex_news2_json_value t ex_news2_numbers]
    ex_news2_json_value t ex_number_text
  show ?thesis by (simp add: ex_news2_stringify)
qed

text \<open>
  C9: every decodable news reply is passed on as it is. If the payload of the
  news reply is structured it is itself the result of the news stage, and if it
  is a string that \<^verbatim>\<open>JSON.parse\<close> reads as \<open>n\<close>, the result is \<open>n\<close>: the stage
  never fails on it and changes no value in it. If the remaining stages succeed
  as well, the run ends with that result in the news field and no error. A
  relevance score of 1.5 in the reply is therefore 1.5 in the state.
\<close>

theorem news_payload_committed_unchanged:
  assumes "callAgent net AGENT_IDS_news news_instruction (requests w) = (Inr newsData, r1)"
    and "(case newsData of JStr s \<Rightarrow> P s | _ \<Rightarrow> Inr newsData) = Inr n"
  shows "stage net P AGENT_IDS_news news_instruction (requests w) = (Inr n, r1)
       \<and> (get_prop n ''news_summary'' = Inr (JArr items) \<longrightarrow>
          stage net P AGENT_IDS_personality personality_instruction r1 = (Inr p, r2) \<longrightarrow>
          personalityContext S p = Inr pc \<longrightarrow>
          stage net P AGENT_IDS_draft (draft_instruction pc (S (JArr (take 3 items)))) r2 =
            (Inr d, r3) \<longrightarrow>
          result (snd (handleGenerateDraft net P S w)) =
            \<lparr>news = n, personality = p, draft = d, loading = False, error = None\<rparr>)"
proof -
  have "decode_payload P newsData = Inr n"
    using assms(2) by (simp add: decode_payload_def)
  with assms(1)
  have s1: "stage net P AGENT_IDS_news news_instruction (requests w) = (Inr n, r1)"
    by (simp add: stage_eq)
  show ?thesis
  proof (intro conjI impI)
    show "stage net P AGENT_IDS_news news_instruction (requests w) = (Inr n, r1)"
      by (rule s1)
  next
    assume items: "get_prop n ''news_summary'' = Inr (JArr items)"
      and s2: "stage net P AGENT_IDS_personality personality_instruction r1 = (Inr p, r2)"
      and pc: "personalityContext S p = Inr pc"
      and s3: "stage net P AGENT_IDS_draft
                 (draft_instruction pc (S (JArr (take 3 items)))) r2 = (Inr d, r3)"
    from full_state_after_success [OF s1 s2 newsContext_array [OF items] pc s3]
    show "result (snd (handleGenerateDraft net P S w)) =
            \<lparr>news = n, personality = p, draft = d, loading = False, error = None\<rparr>" .
  qed
qed

theorem news_payload_committed_unchanged_witness:
  "callAgent (ex_remote (reply_ok ex_news5) (reply_ok ex_profile) (reply_ok ex_draft))
     AGENT_IDS_news news_instruction [] =
     (Inr ex_news5, [\<lparr>agent_id = AGENT_IDS_news, message = news_instruction\<rparr>])
   \<and> result (snd (handleGenerateDraft
        (ex_remote (reply_ok ex_news5) (reply_ok ex_profile) (reply_ok ex_draft))
        (JSON_parse ex_num_read) (JSON_stringify ex_num_show) (ex_world initial_result))) =
     \<lparr>news = JObj [(''news_summary'',
            JArr [JObj [(''headline'', JStr ''a''), (''relevance_score'', JNum (1/5))],
                  JObj [(''headline'', JStr ''b''), (''relevance_score'', JNum (3/2))],
                  JObj [(''headline'', JStr ''c''), (''relevance_score'', JNum (1/2))],
                  JObj [(''headline'', JStr ''d''), (''relevance_score'', JNum (9/10))],
                  JObj [(''headline'', JStr ''e''), (''relevance_score'', JNum 1)]]),
           (''confidence'', JNum (9/10))],
      personality = ex_profile, draft = ex_draft, loading = False, error = None\<rparr>
   \<and> callAgent (ex_remote (reply_ok (JStr ex_news2_text)) (reply_ok ex_profile) (reply_ok ex_draft))
     AGENT_IDS_news news_instruction [] =
     (Inr (JStr ex_news2_text), [\<lparr>agent_id = AGENT_IDS_news, message = news_instruction\<rparr>])
   \<and> JSON_parse ex_num_read ex_news2_text = Inr ex_news2
   \<and> result (snd (handleGenerateDraft
        (ex_remote (reply_ok (JStr ex_news2_text)) (reply_ok ex_profile) (reply_ok ex_draft))
        (JSON_parse ex_num_read) (JSON_stringify ex_num_show) (ex_world initial_result))) =
     \<lparr>news = JObj [(''news_summary'',
            JArr [JObj [(''headline'', JStr ''a''), (''relevance_score'', JNum (1/5))],
                  JObj [(''headline'', JStr ''b''), (''relevance_score'', JNum (3/2))]]),
           (''confidence'', JNum (9/10))],
      personality = ex_profile, draft = ex_draft, loading = False, error = None\<rparr>"
proof -
  let ?net = "ex_remote (reply_ok ex_news5) (reply_ok ex_profile) (reply_ok ex_draft)"
  let ?net' = "ex_remote (reply_ok (JStr ex_news2_text)) (reply_ok ex_profile) (reply_ok ex_draft)"
  let ?P = "JSON_parse ex_num_read"
  let ?S = "JSON_stringify ex_num_show"
  let ?w = "ex_world initial_result"
  let ?r1 = "[\<lparr>agent_id = AGENT_IDS_news, message = news_instruction\<rparr>]"
  let ?r2 = "[\<lparr>agent_id = AGENT_IDS_news, message = news_instruction\<rparr>,
             \<lparr>agent_id = AGENT_IDS_personality, message = personality_instruction\<rparr>]"
  have c: "callAgent ?net AGENT_IDS_news news_instruction (requests ?w) = (Inr ex_news5, ?r1)"
    by (simp add: ex_callAgent_ok ex_remote_simps ex_world_def)
  have c': "callAgent ?net' AGENT_IDS_news news_instruction (requests ?w) =
      (Inr (JStr ex_news2_text), ?r1)"
    by (simp add: ex_callAgent_ok ex_remote_simps ex_world_def)
  have d: "(case ex_news5 of JStr s \<Rightarrow> ?P s | _ \<Rightarrow> Inr ex_news5) = Inr ex_news5"
    by (simp add: ex_news5_def)
  have d': "(case JStr ex_news2_text of JStr s \<Rightarrow> ?P s | _ \<Rightarrow> Inr (JStr ex_news2_text)) =
      Inr ex_news2"
    by (simp add: ex_news2_parse)
  have s2: "stage ?net ?P AGENT_IDS_personality personality_instruction ?r1 =
       (Inr ex_profile, ?r2)"
    by (simp add: ex_stage_ok ex_remote_simps ex_not_strings)
  have s2': "stage ?net' ?P AGENT_IDS_personality personality_instruction ?r1 =
       (Inr ex_profile, ?r2)"
    by (simp add: ex_stage_ok ex_remote_simps ex_not_strings)
  have s3: "stage ?net ?P AGENT_IDS_draft m ?r2 =
       (Inr ex_draft, ?r2 @ [\<lparr>agent_id = AGENT_IDS_draft, message = m\<rparr>])" for m
    by (simp add: ex_stage_ok ex_remote_simps ex_not_strings)
  have s3': "stage ?net' ?P AGENT_IDS_draft m ?r2 =
       (Inr ex_draft, ?r2 @ [\<lparr>agent_id = AGENT_IDS_draft, message = m\<rparr>])" for m
    by (simp add: ex_stage_ok ex_remote_simps ex_not_strings)
  from news_payload_committed_unchanged [OF c d, of _ ex_profile ?r2 ?S _ ex_draft]
    ex_news5_summary s2 s3 ex_personalityContext [of ?S]
  have r: "result (snd (handleGenerateDraft ?net ?P ?S ?w)) =
      \<lparr>news = ex_news5, personality = ex_profile, draft = ex_draft,
       loading = False, error = None\<rparr>"
    by simp
  from news_payload_committed_unchanged [OF c' d', of _ ex_profile ?r2 ?S _ ex_draft]
    ex_news2_summary s2' s3' ex_personalityContext [of ?S]
  have r': "result (snd (handleGenerateDraft ?net' ?P ?S ?w)) =
      \<lparr>news = ex_news2, personality = ex_profile, draft = ex_draft,
       loading = False, error = None\<rparr>"
    by simp
  from r r' c c' show ?thesis
    by (simp add: ex_world_def ex_news2_parse) (simp add: ex_news5_def ex_news2_def ex_item_def)
qed

end
